theory Spec2Isabelle
  imports Main "HOL-Library.Sublist"
begin

section \<open>JavaScript strings and errors\<close>

text \<open>
  A JavaScript string is a sequence of UTF-16 code units. A code unit is modelled as a
  natural number, so that \<open>String.fromCodePoint\<close> can produce units beyond the Latin range.
  \<open>str\<close> turns an ASCII literal into such a string.
\<close>

type_synonym jsstring = "nat list"

definition str :: "string \<Rightarrow> jsstring" where
  "str s = map of_char s"

text \<open>\<open>s.slice(a, b)\<close> for non-negative indices: empty when \<open>b \<le> a\<close>, clipped at the end.\<close>

definition slice :: "jsstring \<Rightarrow> nat \<Rightarrow> nat \<Rightarrow> jsstring" where
  "slice s a b = take (b - a) (drop a s)"

text \<open>\<open>xs.join(sep)\<close>.\<close>

fun join :: "jsstring \<Rightarrow> jsstring list \<Rightarrow> jsstring" where
  "join sep [] = []"
| "join sep [x] = x"
| "join sep (x # y # ys) = x @ sep @ join sep (y # ys)"

text \<open>
  Every \<open>throw\<close> of the sources is a value of this type. \<open>RangeError\<close> and \<open>TypeError\<close>
  are raised by the runtime (\<open>String.fromCodePoint\<close> beyond U+10FFFF, a property read on
  \<open>undefined\<close>); \<open>Error\<close> carries the message of a \<open>throw new Error(...)\<close>;
  \<open>SyntaxError\<close> is what the parser's \<open>unexpected()\<close> raises.
\<close>

datatype error = RangeError | TypeError | Error string | SyntaxError

section \<open>JSX text normalisation (JSXTransformer)\<close>

subsection \<open>Runtime functions used by the transformer\<close>

definition isDecimalDigit :: "nat \<Rightarrow> bool" where
  "isDecimalDigit c = (48 \<le> c \<and> c \<le> 57)"

definition isHexDigit :: "nat \<Rightarrow> bool" where
  "isHexDigit c = (isDecimalDigit c \<or> (97 \<le> c \<and> c \<le> 102) \<or> (65 \<le> c \<and> c \<le> 70))"

text \<open>\<open>HEX_NUMBER = /^[\da-fA-F]+$/\<close> and \<open>DECIMAL_NUMBER = /^\d+$/\<close>.\<close>

definition HEX_NUMBER :: "jsstring \<Rightarrow> bool" where
  "HEX_NUMBER s = (s \<noteq> [] \<and> list_all isHexDigit s)"

definition DECIMAL_NUMBER :: "jsstring \<Rightarrow> bool" where
  "DECIMAL_NUMBER s = (s \<noteq> [] \<and> list_all isDecimalDigit s)"

definition digitValue :: "nat \<Rightarrow> nat" where
  "digitValue c = (if isDecimalDigit c then c - 48
                   else if 97 \<le> c \<and> c \<le> 102 then c - 87
                   else c - 55)"

text \<open>\<open>parseInt(s, radix)\<close> on a string that passed the digit test of that radix.\<close>

definition parseInt :: "jsstring \<Rightarrow> nat \<Rightarrow> nat" where
  "parseInt s radix = foldl (\<lambda>acc c. acc * radix + digitValue c) 0 s"

text \<open>
  \<open>String.fromCodePoint(n)\<close>: one code unit below U+10000, a surrogate pair up to
  U+10FFFF, and a \<open>RangeError\<close> beyond.
\<close>

definition fromCodePoint :: "nat \<Rightarrow> error + jsstring" where
  "fromCodePoint n =
     (if n > 1114111 then Inl RangeError
      else if n < 65536 then Inr [n]
      else Inr [55296 + (n - 65536) div 1024, 56320 + (n - 65536) mod 1024])"

definition hexDigit :: "nat \<Rightarrow> nat" where
  "hexDigit d = (if d < 10 then 48 + d else 87 + d)"

definition unicodeEscape :: "nat \<Rightarrow> jsstring" where
  "unicodeEscape c =
     [92, 117, hexDigit (c div 4096 mod 16), hexDigit (c div 256 mod 16),
      hexDigit (c div 16 mod 16), hexDigit (c mod 16)]"

definition isHighSurrogate :: "nat \<Rightarrow> bool" where
  "isHighSurrogate c = (55296 \<le> c \<and> c \<le> 56319)"

definition isLowSurrogate :: "nat \<Rightarrow> bool" where
  "isLowSurrogate c = (56320 \<le> c \<and> c \<le> 57343)"

text \<open>
  The body of \<open>JSON.stringify\<close> on a string (QuoteJSONString of ECMAScript): the quote and
  the backslash are escaped, control characters get their short or \<open>\u00XX\<close> escape, a
  surrogate that is not part of a pair is escaped, every other unit is kept.
\<close>

definition quoteUnit :: "nat \<Rightarrow> jsstring" where
  "quoteUnit c =
     (if c = 8 then [92, 98]
      else if c = 9 then [92, 116]
      else if c = 10 then [92, 110]
      else if c = 12 then [92, 102]
      else if c = 13 then [92, 114]
      else if c = 34 then [92, 34]
      else if c = 92 then [92, 92]
      else if c < 32 \<or> isHighSurrogate c \<or> isLowSurrogate c then unicodeEscape c
      else [c])"

fun quoteJSON :: "jsstring \<Rightarrow> jsstring" where
  "quoteJSON [] = []"
| "quoteJSON [c] = quoteUnit c"
| "quoteJSON (c # d # ds) =
     (if isHighSurrogate c \<and> isLowSurrogate d then c # d # quoteJSON ds
      else quoteUnit c @ quoteJSON (d # ds))"

definition JSON_stringify :: "jsstring \<Rightarrow> jsstring" where
  "JSON_stringify s = [34] @ quoteJSON s @ [34]"

subsection \<open>processEntity\<close>

text \<open>
  The named-entity table \<open>XHTMLEntities\<close> (sucrase-babylon/plugins/jsx/xhtml) is a
  parameter: \<open>tbl name\<close> is the value of \<open>XHTMLEntities[name]\<close>, \<open>None\<close> for
  \<open>undefined\<close>.

  \<open>resolveEntity\<close> is the body of the \<open>if (ch === ";")\<close> branch: the value assigned to
  \<open>entity\<close> (\<open>None\<close> when it stays \<open>undefined\<close>), or the \<open>RangeError\<close> of
  \<open>String.fromCodePoint\<close>.
\<close>

definition resolveEntity :: "(jsstring \<Rightarrow> jsstring option) \<Rightarrow> jsstring \<Rightarrow> error + jsstring option" where
  "resolveEntity tbl s =
     (if take 1 s = [35] then
        (if take 1 (drop 1 s) = [120] then
           (let s' = drop 2 s in
            if HEX_NUMBER s' then map_sum id Some (fromCodePoint (parseInt s' 16)) else Inr None)
         else
           (let s' = drop 1 s in
            if DECIMAL_NUMBER s' then map_sum id Some (fromCodePoint (parseInt s' 10)) else Inr None))
      else Inr (tbl s))"

text \<open>
  The \<open>while (i < text.length && count++ < 10)\<close> loop. It returns the value of \<open>entity\<close>
  and the value of \<open>i\<close> when the loop is left.
\<close>

function processEntity_loop ::
  "(jsstring \<Rightarrow> jsstring option) \<Rightarrow> jsstring \<Rightarrow> nat \<Rightarrow> nat \<Rightarrow> jsstring \<Rightarrow> error + (jsstring option \<times> nat)" where
  "processEntity_loop tbl text i count s =
     (if i < length text \<and> count < 10 then
        (let ch = text ! i in
         if ch = 59 then
           (case resolveEntity tbl s of
              Inl e \<Rightarrow> Inl e
            | Inr entity \<Rightarrow> Inr (entity, i + 1))
         else processEntity_loop tbl text (i + 1) (count + 1) (s @ [ch]))
      else Inr (None, i))"
  by pat_completeness auto
termination
  by (relation "measure (\<lambda>(tbl, text, i, count, s). 10 - count)") auto

text \<open>\<open>!entity\<close> holds for \<open>undefined\<close> and for the empty string.\<close>

definition processEntity ::
  "(jsstring \<Rightarrow> jsstring option) \<Rightarrow> jsstring \<Rightarrow> nat \<Rightarrow> error + (jsstring \<times> nat)" where
  "processEntity tbl text indexAfterAmpersand =
     (case processEntity_loop tbl text indexAfterAmpersand 0 [] of
        Inl e \<Rightarrow> Inl e
      | Inr (entity, i) \<Rightarrow>
          (case entity of
             None \<Rightarrow> Inr ([38], indexAfterAmpersand)
           | Some ent \<Rightarrow> if ent = [] then Inr ([38], indexAfterAmpersand) else Inr (ent, i)))"

declare processEntity_loop.simps [simp del]

lemma processEntity_loop_index:
  "processEntity_loop tbl t i count s = Inr (entity, j) \<Longrightarrow> i \<le> j"
proof (induction tbl t i count s rule: processEntity_loop.induct)
  case (1 tbl t i count s)
  show ?case
  proof (cases "i < length t \<and> count < 10")
    case False
    with "1.prems" show ?thesis
      by (simp add: processEntity_loop.simps [of tbl t i count s])
  next
    case guard: True
    show ?thesis
    proof (cases "t ! i = 59")
      case True
      with guard "1.prems" show ?thesis
        by (auto simp: processEntity_loop.simps [of tbl t i count s] split: sum.splits)
    next
      case False
      with guard "1.prems"
      have "processEntity_loop tbl t (i + 1) (count + 1) (s @ [t ! i]) = Inr (entity, j)"
        by (simp add: processEntity_loop.simps [of tbl t i count s])
      with "1.IH" [OF guard refl False] show ?thesis
        by simp
    qed
  qed
qed

lemma processEntity_index:
  "processEntity tbl t i = Inr (entity, newI) \<Longrightarrow> i \<le> newI"
  by (auto simp: processEntity_def split: sum.splits option.splits if_splits
      dest: processEntity_loop_index)

subsection \<open>formatJSXTextLiteral\<close>

text \<open>
  The local variables of \<open>formatJSXTextLiteral\<close> that the loop updates are one record.
  \<open>formatJSXTextLiteral_body\<close> is one pass through the body of the \<open>for\<close> loop: it
  returns the value of \<open>i\<close> at the end of the body (the entity branch assigns
  \<open>newI - 1\<close> to it) and the updated variables; the loop then increments \<open>i\<close>.
\<close>

record textState =
  result :: jsstring
  whitespace :: jsstring
  isInInitialLineWhitespace :: bool
  seenNonWhitespace :: bool

definition formatJSXTextLiteral_body ::
  "(jsstring \<Rightarrow> jsstring option) \<Rightarrow> jsstring \<Rightarrow> nat \<Rightarrow> textState \<Rightarrow> error + (nat \<times> textState)" where
  "formatJSXTextLiteral_body tbl text i st =
     (let c = text ! i in
      if c = 32 \<or> c = 9 \<or> c = 13 then
        (if \<not> isInInitialLineWhitespace st
         then Inr (i, st\<lparr>whitespace := whitespace st @ [c]\<rparr>)
         else Inr (i, st))
      else if c = 10 then
        Inr (i, st\<lparr>whitespace := [], isInInitialLineWhitespace := True\<rparr>)
      else
        (let st1 = (if seenNonWhitespace st \<and> isInInitialLineWhitespace st
                    then st\<lparr>result := result st @ [32]\<rparr> else st);
             st2 = st1\<lparr>result := result st1 @ whitespace st1, whitespace := []\<rparr> in
         if c = 38 then
           (case processEntity tbl text (i + 1) of
              Inl e \<Rightarrow> Inl e
            | Inr (entity, newI) \<Rightarrow>
                Inr (newI - 1, st2\<lparr>result := result st2 @ entity,
                       seenNonWhitespace := True, isInInitialLineWhitespace := False\<rparr>))
         else
           Inr (i, st2\<lparr>result := result st2 @ [c],
                  seenNonWhitespace := True, isInInitialLineWhitespace := False\<rparr>)))"

lemma formatJSXTextLiteral_body_index:
  "formatJSXTextLiteral_body tbl t i st = Inr (i', st') \<Longrightarrow> i \<le> i'"
  by (auto simp: formatJSXTextLiteral_body_def Let_def split: if_splits sum.splits
      dest!: processEntity_index)

function formatJSXTextLiteral_loop ::
  "(jsstring \<Rightarrow> jsstring option) \<Rightarrow> jsstring \<Rightarrow> nat \<Rightarrow> textState \<Rightarrow> error + textState" where
  "formatJSXTextLiteral_loop tbl text i st =
     (if i < length text then
        (case formatJSXTextLiteral_body tbl text i st of
           Inl e \<Rightarrow> Inl e
         | Inr (i', st') \<Rightarrow> formatJSXTextLiteral_loop tbl text (i' + 1) st')
      else Inr st)"
  by pat_completeness auto
termination
proof (relation "measure (\<lambda>(tbl, t, i, st). length t - i)", goal_cases)
  case 1
  show ?case by simp
next
  case (2 tbl t i st x2 i' st')
  from formatJSXTextLiteral_body_index [of tbl t i st i' st'] 2 show ?case
    by auto
qed

declare formatJSXTextLiteral_loop.simps [simp del]

definition formatJSXTextLiteral :: "(jsstring \<Rightarrow> jsstring option) \<Rightarrow> jsstring \<Rightarrow> error + jsstring" where
  "formatJSXTextLiteral tbl text =
     (case formatJSXTextLiteral_loop tbl text 0
             \<lparr>result = [], whitespace = [], isInInitialLineWhitespace = False,
              seenNonWhitespace = False\<rparr> of
        Inl e \<Rightarrow> Inl e
      | Inr st \<Rightarrow>
          Inr (JSON_stringify
                (if \<not> isInInitialLineWhitespace st then result st @ whitespace st else result st)))"

subsection \<open>formatJSXTextReplacement\<close>

text \<open>The \<open>for (const c of text)\<close> loop, with the two counters as accumulators.\<close>

fun formatJSXTextReplacement_loop :: "jsstring \<Rightarrow> nat \<Rightarrow> nat \<Rightarrow> nat \<times> nat" where
  "formatJSXTextReplacement_loop [] numNewlines numSpaces = (numNewlines, numSpaces)"
| "formatJSXTextReplacement_loop (c # cs) numNewlines numSpaces =
     (if c = 10 then formatJSXTextReplacement_loop cs (numNewlines + 1) 0
      else if c = 32 then formatJSXTextReplacement_loop cs numNewlines (numSpaces + 1)
      else formatJSXTextReplacement_loop cs numNewlines numSpaces)"

definition formatJSXTextReplacement :: "jsstring \<Rightarrow> jsstring" where
  "formatJSXTextReplacement text =
     (case formatJSXTextReplacement_loop text 0 0 of
        (numNewlines, numSpaces) \<Rightarrow> replicate numNewlines 10 @ replicate numSpaces 32)"

text \<open>
  Two readings of "the spaces at the end" of a text run: the spaces after its last newline,
  wherever they stand on that last line, and the spaces that end the run.
\<close>

definition afterLastNewline :: "jsstring \<Rightarrow> jsstring" where
  "afterLastNewline s = rev (takeWhile (\<lambda>c. c \<noteq> 10) (rev s))"

definition trailingSpaces :: "jsstring \<Rightarrow> nat" where
  "trailingSpaces s = length (takeWhile (\<lambda>c. c = 32) (rev s))"

section \<open>Tokens and the token cursor\<close>

text \<open>
  The token types the sources name (sucrase-babylon/tokenizer/types is a closed
  enumeration); \<open>tt_other\<close> stands for every type the sources do not name.
\<close>

datatype TokenType =
    tt_name | tt_string | tt_num | tt_braceL | tt_braceR | tt_dollarBraceL
  | tt_parenL | tt_parenR | tt_bracketL | tt_bracketR | tt_comma | tt_colon | tt_dot
  | tt_ellipsis | tt_eq | tt_slash | tt_class | tt_this | tt_yield
  | tt_jsxName | tt_jsxText | tt_jsxTagStart | tt_jsxTagEnd | tt_eof | tt_other nat

datatype IdentifierRole = Access | BlockScopedDeclaration | FunctionScopedDeclaration

record token =
  type :: TokenType
  start :: nat
  end' :: nat
  contextId :: "nat option"
  identifierRole :: "IdentifierRole option"
  isType :: bool

text \<open>
  A call either does not return (\<open>None\<close>: a loop that runs forever, or a model that ran
  out of fuel), throws (\<open>Some (Inl e)\<close>) or returns (\<open>Some (Inr x)\<close>).
\<close>

type_synonym 'a result = "(error + 'a) option"

definition ret :: "'a \<Rightarrow> 'a result" where
  "ret x = Some (Inr x)"

definition raise :: "error \<Rightarrow> 'a result" where
  "raise e = Some (Inl e)"

definition andThen :: "'a result \<Rightarrow> ('a \<Rightarrow> 'b result) \<Rightarrow> 'b result" where
  "andThen m f = (case m of None \<Rightarrow> None | Some (Inl e) \<Rightarrow> Some (Inl e) | Some (Inr x) \<Rightarrow> f x)"

text \<open>
  The mutable fields of the objects one run owns: the token cursor (\<open>code\<close>, \<open>tokens\<close>,
  \<open>resultCode\<close>, \<open>tokenIndex\<close>), the orchestrator (\<open>generatedVariables\<close>), the JSX
  transformer (\<open>lastLineNumber\<close>, \<open>lastIndex\<close>, \<open>filenameVarName\<close>), and in \<open>ext\<close> the
  state of the collaborators whose code is not in the sources (name allocator, import
  resolver, the other transformers).
\<close>

record 'x state =
  code :: jsstring
  tokens :: "token list"
  resultCode :: jsstring
  tokenIndex :: nat
  generatedVariables :: "jsstring list"
  lastLineNumber :: nat
  lastIndex :: nat
  filenameVarName :: "jsstring option"
  ext :: 'x

subsection \<open>TokenProcessor\<close>

text \<open>
  The class TokenProcessor (src/TokenProcessor.ts) is not in the sources; its operations
  are modelled from section 4.2 of the spec. A consuming operation first emits the source
  text between the previous token and the token it consumes, and \<open>finish\<close> emits the
  source text after the last consumed token: so every source region that no consuming
  operation touches is reproduced. Where the spec is silent the model takes the reading of
  the JavaScript: a match against a token that does not exist is false, and an operation
  that needs the token at the cursor throws a \<open>TypeError\<close> when there is none.
\<close>

text \<open>
  Modelled from the spec: \<open>TokenProcessor.isAtEnd\<close> is not in the sources. The input
  ends (section 4.3) when no token is left at the cursor.
\<close>

definition isAtEnd :: "'x state \<Rightarrow> bool" where
  "isAtEnd s = (length (tokens s) \<le> tokenIndex s)"

text \<open>
  Modelled from the spec: \<open>TokenProcessor.currentIndex\<close> is not in the sources. The
  cursor is an index into the token sequence.
\<close>

definition currentIndex :: "'x state \<Rightarrow> nat" where
  "currentIndex s = tokenIndex s"

text \<open>
  Modelled from the spec: \<open>TokenProcessor.currentToken\<close> is not in the sources. The token
  at the cursor, \<open>None\<close> for \<open>undefined\<close>.
\<close>

definition currentToken :: "'x state \<Rightarrow> token option" where
  "currentToken s =
     (if tokenIndex s < length (tokens s) then Some (tokens s ! tokenIndex s) else None)"

text \<open>
  Modelled from the spec: \<open>TokenProcessor.matchesAtIndex\<close> is not in the sources. It
  matches the tokens at an index against an expected type sequence.
\<close>

definition matchesAtIndex :: "'x state \<Rightarrow> nat \<Rightarrow> TokenType list \<Rightarrow> bool" where
  "matchesAtIndex s index tagLabels =
     (index + length tagLabels \<le> length (tokens s) \<and>
      map type (take (length tagLabels) (drop index (tokens s))) = tagLabels)"

text \<open>
  Modelled from the spec: \<open>TokenProcessor.matches1\<close> and \<open>matches2\<close> are not in the
  sources. They match the tokens at the cursor against one and two expected types.
\<close>

definition matches1 :: "'x state \<Rightarrow> TokenType \<Rightarrow> bool" where
  "matches1 s t1 = matchesAtIndex s (tokenIndex s) [t1]"

definition matches2 :: "'x state \<Rightarrow> TokenType \<Rightarrow> TokenType \<Rightarrow> bool" where
  "matches2 s t1 t2 = matchesAtIndex s (tokenIndex s) [t1, t2]"

text \<open>
  Modelled from the spec: \<open>TokenProcessor.matchesContextIdAndLabel\<close> is not in the
  sources. The token at the cursor has the given type and carries the given \<open>contextId\<close>,
  the tag that correlates a construct's opener and closer (section 3).
\<close>

definition matchesContextIdAndLabel :: "'x state \<Rightarrow> TokenType \<Rightarrow> nat \<Rightarrow> bool" where
  "matchesContextIdAndLabel s label cid =
     (case currentToken s of
        None \<Rightarrow> False
      | Some t \<Rightarrow> type t = label \<and> contextId t = Some cid)"

text \<open>
  Modelled from the spec: \<open>TokenProcessor.rawCodeForToken\<close>, \<open>identifierNameAtIndex\<close> and
  \<open>identifierName\<close> are not in the sources. The raw text of a token is the source text
  between its offsets, and it is the name of an identifier token.
\<close>

definition rawCodeForToken :: "'x state \<Rightarrow> token \<Rightarrow> jsstring" where
  "rawCodeForToken s t = slice (code s) (start t) (end' t)"

definition identifierNameAtIndex :: "'x state \<Rightarrow> nat \<Rightarrow> jsstring result" where
  "identifierNameAtIndex s index =
     (if index < length (tokens s) then ret (rawCodeForToken s (tokens s ! index))
      else raise TypeError)"

definition identifierName :: "'x state \<Rightarrow> jsstring result" where
  "identifierName s = identifierNameAtIndex s (currentIndex s)"

text \<open>
  Modelled from the spec: the text a consuming operation emits before its own is not named
  in the sources. \<open>consumedEnd\<close> is the end of the last consumed token, where the
  untouched source text starts; \<open>previousWhitespace\<close> is the source text from there to the
  token at the cursor (to the end of the source when no token is left).
\<close>

definition consumedEnd :: "'x state \<Rightarrow> nat" where
  "consumedEnd s =
     (if tokenIndex s = 0 \<or> tokens s = [] then 0
      else end' (tokens s ! (min (tokenIndex s) (length (tokens s)) - 1)))"

definition previousWhitespace :: "'x state \<Rightarrow> jsstring" where
  "previousWhitespace s =
     (case currentToken s of
        None \<Rightarrow> drop (consumedEnd s) (code s)
      | Some t \<Rightarrow> slice (code s) (consumedEnd s) (start t))"

text \<open>
  Modelled from the spec: \<open>TokenProcessor.replaceToken\<close> is not in the sources. It emits
  the supplied text in place of the current token and advances by one.
\<close>

definition replaceToken :: "jsstring \<Rightarrow> 'x state \<Rightarrow> 'x state result" where
  "replaceToken newCode s =
     (if tokenIndex s < length (tokens s)
      then ret (s\<lparr>resultCode := resultCode s @ previousWhitespace s @ newCode,
                  tokenIndex := tokenIndex s + 1\<rparr>)
      else raise TypeError)"

text \<open>
  Modelled from the spec: \<open>TokenProcessor.copyToken\<close> is not in the sources. It emits the
  current token's original text unchanged and advances by one.
\<close>

definition copyToken :: "'x state \<Rightarrow> 'x state result" where
  "copyToken s =
     (case currentToken s of
        None \<Rightarrow> raise TypeError
      | Some t \<Rightarrow> replaceToken (rawCodeForToken s t) s)"

text \<open>
  Modelled from the spec: \<open>TokenProcessor.copyExpectedToken\<close> is not in the sources, and
  the spec does not list it: it is taken to be \<open>copy\<close> behind a check that the token at
  the cursor has the expected type.
\<close>

definition copyExpectedToken :: "TokenType \<Rightarrow> 'x state \<Rightarrow> 'x state result" where
  "copyExpectedToken label s =
     (if matches1 s label then copyToken s else raise (Error ''Expected token''))"

text \<open>
  Modelled from the spec: \<open>TokenProcessor.appendCode\<close> is not in the sources. It emits
  the supplied text without consuming a token.
\<close>

definition appendCode :: "jsstring \<Rightarrow> 'x state \<Rightarrow> 'x state" where
  "appendCode c s = s\<lparr>resultCode := resultCode s @ c\<rparr>"

text \<open>
  Modelled from the spec: \<open>TokenProcessor.finish\<close> is not in the sources. It is the
  emitted fragments in the order issued, followed by the source text that no consuming
  operation touched.
\<close>

definition finish :: "'x state \<Rightarrow> jsstring" where
  "finish s = resultCode s @ drop (consumedEnd s) (code s)"

text \<open>
  Modelled from the spec: \<open>TokenProcessor.reset\<close> is not in the sources, and the spec
  does not list it: it is taken to return the cursor to the first token with nothing
  emitted.
\<close>

definition reset :: "'x state \<Rightarrow> 'x state" where
  "reset s = s\<lparr>resultCode := [], tokenIndex := 0\<rparr>"

section \<open>Collaborators of the transformers\<close>

text \<open>
  The public methods of the orchestrator, as the transformers (and the orchestrator itself,
  through \<open>this\<close>) call them. The definitions below take them as a parameter \<open>root\<close>;
  \<open>rootTransformer\<close> at the end ties them to the definitions.
\<close>

record 'x callbacks =
  cb_processBalancedCode :: "'x state \<Rightarrow> 'x state result"
  cb_processToken :: "'x state \<Rightarrow> 'x state result"
  cb_processClass :: "'x state \<Rightarrow> 'x state result"
  cb_processNamedClass :: "'x state \<Rightarrow> (jsstring \<times> 'x state) result"
  cb_processPossibleTypeRange :: "'x state \<Rightarrow> (bool \<times> 'x state) result"

text \<open>\<open>ClassInfo\<close> and its \<open>headerInfo\<close> (src/util/getClassInfo.ts declares both).\<close>

record ClassHeaderInfo =
  isExpression :: bool
  className :: "jsstring option"
  hasSuperclass :: bool

record ClassInfo =
  headerInfo :: ClassHeaderInfo
  constructorInsertPos :: "nat option"
  initializerStatements :: "jsstring list"
  staticInitializerSuffixes :: "jsstring list"
  fieldRanges :: "(nat \<times> nat) list"

text \<open>The enabled-extensions configuration, and the transformer classes.\<close>

datatype Transform = T_jsx | T_imports | T_flow | T_typescript | T_add_module_exports

datatype Transformer =
    NumericSeparatorTransformer
  | OptionalCatchBindingTransformer
  | JSXTransformer
  | ReactDisplayNameTransformer
  | ImportTransformer bool
  | FlowTransformer
  | TypeScriptTransformer

text \<open>
  What the sources call and do not contain, as parameters: the named-entity table, the
  lower-casing of a code unit beyond ASCII, the file path given to the JSX transformer, the
  name allocator's \<open>claimFreeName\<close>, the import resolver's \<open>getIdentifierReplacement\<close>,
  the cursor's two removal operations (the spec does not fix what they emit for the text
  before a removed token), \<open>getClassInfo\<close>, and the methods of the transformer classes
  other than the JSX transformer.
\<close>

record 'x env =
  XHTMLEntities :: "jsstring \<Rightarrow> jsstring option"
  unicodeToLowerCase :: "nat \<Rightarrow> jsstring"
  filePath :: "jsstring option"
  claimFreeName :: "jsstring \<Rightarrow> 'x \<Rightarrow> jsstring \<times> 'x"
  getIdentifierReplacement :: "jsstring \<Rightarrow> 'x \<Rightarrow> jsstring option"
  removeInitialToken :: "'x state \<Rightarrow> 'x state result"
  removeToken :: "'x state \<Rightarrow> 'x state result"
  getClassInfo :: "'x callbacks \<Rightarrow> 'x state \<Rightarrow> (ClassInfo \<times> 'x state) result"
  Transformer_process :: "Transformer \<Rightarrow> 'x callbacks \<Rightarrow> 'x state \<Rightarrow> (bool \<times> 'x state) result"
  Transformer_getPrefixCode :: "Transformer \<Rightarrow> 'x state \<Rightarrow> jsstring"
  Transformer_getSuffixCode :: "Transformer \<Rightarrow> 'x state \<Rightarrow> jsstring"

section \<open>The JSX transformer (JSXTransformer)\<close>

subsection \<open>Strings in prop position\<close>

text \<open>The characters the regular expression \<open>/\s/\<close> matches.\<close>

definition isWhitespace :: "nat \<Rightarrow> bool" where
  "isWhitespace c =
     (c \<in> {9, 10, 11, 12, 13, 32, 160, 5760, 8232, 8233, 8239, 8287, 12288, 65279}
      \<or> (8192 \<le> c \<and> c \<le> 8202))"

text \<open>
  \<open>/\s/.test(text[j])\<close>: beyond the end \<open>text[j]\<close> is \<open>undefined\<close>, tested as the
  string \<open>undefined\<close>, which holds no whitespace.
\<close>

definition whitespaceAt :: "jsstring \<Rightarrow> nat \<Rightarrow> bool" where
  "whitespaceAt text j = (j < length text \<and> isWhitespace (text ! j))"

text \<open>The inner \<open>while (i < text.length && /\s/.test(text[i + 1])) i++\<close>.\<close>

function skipWhitespace :: "jsstring \<Rightarrow> nat \<Rightarrow> nat" where
  "skipWhitespace text i =
     (if i < length text \<and> whitespaceAt text (i + 1) then skipWhitespace text (i + 1) else i)"
  by pat_completeness auto
termination
  by (relation "measure (\<lambda>(text, i). length text - i)") auto

declare skipWhitespace.simps [simp del]

lemma skipWhitespace_index: "i \<le> skipWhitespace t i"
proof (induction t i rule: skipWhitespace.induct)
  case (1 t i)
  then show ?case
    by (cases "i < length t \<and> whitespaceAt t (i + 1)")
      (auto simp: skipWhitespace.simps [of t i])
qed

text \<open>
  One pass through the body of the \<open>for\<close> loop of \<open>formatJSXStringValueLiteral\<close>: the
  value of \<open>i\<close> at the end of the body and the new \<open>result\<close> (here \<open>resultStr\<close>).
\<close>

definition formatJSXStringValueLiteral_body ::
  "(jsstring \<Rightarrow> jsstring option) \<Rightarrow> jsstring \<Rightarrow> nat \<Rightarrow> jsstring \<Rightarrow> error + (nat \<times> jsstring)" where
  "formatJSXStringValueLiteral_body tbl text i resultStr =
     (let c = text ! i in
      if c = 10 then
        (if whitespaceAt text (i + 1) then Inr (skipWhitespace text i, resultStr @ [32])
         else Inr (i, resultStr @ [10]))
      else if c = 38 then
        (case processEntity tbl text (i + 1) of
           Inl e \<Rightarrow> Inl e
         | Inr (entity, newI) \<Rightarrow> Inr (newI - 1, resultStr @ entity))
      else Inr (i, resultStr @ [c]))"

lemma formatJSXStringValueLiteral_body_index:
  "formatJSXStringValueLiteral_body tbl t i r = Inr (i', r') \<Longrightarrow> i \<le> i'"
  by (auto simp: formatJSXStringValueLiteral_body_def Let_def skipWhitespace_index
      split: if_splits sum.splits dest!: processEntity_index)

function formatJSXStringValueLiteral_loop ::
  "(jsstring \<Rightarrow> jsstring option) \<Rightarrow> jsstring \<Rightarrow> nat \<Rightarrow> jsstring \<Rightarrow> error + jsstring" where
  "formatJSXStringValueLiteral_loop tbl text i resultStr =
     (if i < length text then
        (case formatJSXStringValueLiteral_body tbl text i resultStr of
           Inl e \<Rightarrow> Inl e
         | Inr (i', resultStr') \<Rightarrow> formatJSXStringValueLiteral_loop tbl text (i' + 1) resultStr')
      else Inr resultStr)"
  by pat_completeness auto
termination
proof (relation "measure (\<lambda>(tbl, t, i, r). length t - i)", goal_cases)
  case 1
  show ?case by simp
next
  case (2 tbl t i r x2 i' r')
  from formatJSXStringValueLiteral_body_index [of tbl t i r i' r'] 2 show ?case
    by auto
qed

declare formatJSXStringValueLiteral_loop.simps [simp del]

definition formatJSXStringValueLiteral ::
  "(jsstring \<Rightarrow> jsstring option) \<Rightarrow> jsstring \<Rightarrow> error + jsstring" where
  "formatJSXStringValueLiteral tbl text =
     map_sum id JSON_stringify (formatJSXStringValueLiteral_loop tbl text 0 [])"

subsection \<open>Line numbers and the file-name variable\<close>

function getLineNumberForIndex_loop :: "nat \<Rightarrow> 'x state \<Rightarrow> 'x state" where
  "getLineNumberForIndex_loop index s =
     (if lastIndex s < index \<and> lastIndex s < length (code s) then
        getLineNumberForIndex_loop index
          (s\<lparr>lastLineNumber :=
                (if code s ! lastIndex s = 10 then lastLineNumber s + 1 else lastLineNumber s),
              lastIndex := lastIndex s + 1\<rparr>)
      else s)"
  by pat_completeness auto
termination
  by (relation "measure (\<lambda>(index, s). length (code s) - lastIndex s)") auto

declare getLineNumberForIndex_loop.simps [simp del]

definition getLineNumberForIndex :: "nat \<Rightarrow> 'x state \<Rightarrow> nat \<times> 'x state" where
  "getLineNumberForIndex index s =
     (let s' = getLineNumberForIndex_loop index s in (lastLineNumber s', s'))"

definition getFilenameVarName :: "'x env \<Rightarrow> 'x state \<Rightarrow> jsstring \<times> 'x state" where
  "getFilenameVarName env s =
     (if filenameVarName s = None \<or> filenameVarName s = Some [] then
        (case claimFreeName env (str ''_jsxFileName'') (ext s) of
           (name, x) \<Rightarrow> (name, s\<lparr>filenameVarName := Some name, ext := x\<rparr>))
      else (the (filenameVarName s), s))"

definition JSXTransformer_getPrefixCode :: "'x env \<Rightarrow> 'x state \<Rightarrow> jsstring" where
  "JSXTransformer_getPrefixCode env s =
     (if filenameVarName s = None \<or> filenameVarName s = Some [] then []
      else str ''const '' @ the (filenameVarName s) @ str '' = ''
           @ JSON_stringify (case filePath env of None \<Rightarrow> [] | Some p \<Rightarrow> p) @ str '';'')"

text \<open>A number in a template literal: its decimal digits.\<close>

fun decimal :: "nat \<Rightarrow> jsstring" where
  "decimal n = (if n < 10 then [48 + n] else decimal (n div 10) @ [48 + n mod 10])"

declare decimal.simps [simp del]

subsection \<open>Props\<close>

definition processStringPropValue :: "'x env \<Rightarrow> 'x state \<Rightarrow> 'x state result" where
  "processStringPropValue env s =
     (case currentToken s of
        None \<Rightarrow> raise TypeError
      | Some t \<Rightarrow>
          (let valueCode = (if end' t = 0 then slice (code s) (start t + 1) (length (code s) - 1)
                            else slice (code s) (start t + 1) (end' t - 1));
               replacementCode = formatJSXTextReplacement valueCode in
           case formatJSXStringValueLiteral (XHTMLEntities env) valueCode of
             Inl e \<Rightarrow> raise e
           | Inr literalCode \<Rightarrow> replaceToken (literalCode @ replacementCode) s))"

text \<open>The \<open>while (true)\<close> loop of \<open>processProps\<close>; its \<open>break\<close> returns the state.\<close>

primrec processProps_loop :: "nat \<Rightarrow> 'x env \<Rightarrow> 'x callbacks \<Rightarrow> 'x state \<Rightarrow> 'x state result" where
  "processProps_loop 0 env root s = None"
| "processProps_loop (Suc fuel) env root s =
     (if matches2 s tt_jsxName tt_eq then
        andThen (identifierName s) (\<lambda>keyName.
        andThen (if 45 \<in> set keyName then replaceToken ([39] @ keyName @ [39]) s
                 else copyToken s) (\<lambda>s1.
        andThen (replaceToken (str '': '') s1) (\<lambda>s2.
        andThen (if matches1 s2 tt_braceL then
                   andThen (replaceToken [] s2) (\<lambda>s3.
                   andThen (cb_processBalancedCode root s3) (replaceToken []))
                 else processStringPropValue env s2) (\<lambda>s4.
        processProps_loop fuel env root (appendCode (str '','') s4)))))
      else if matches1 s tt_jsxName then
        andThen (copyToken s) (\<lambda>s1.
        processProps_loop fuel env root (appendCode (str '','') (appendCode (str '': true'') s1)))
      else if matches1 s tt_braceL then
        andThen (replaceToken [] s) (\<lambda>s1.
        andThen (cb_processBalancedCode root s1) (\<lambda>s2.
        andThen (replaceToken [] s2) (\<lambda>s3.
        processProps_loop fuel env root (appendCode (str '','') s3))))
      else ret s)"

definition processProps :: "nat \<Rightarrow> 'x env \<Rightarrow> 'x callbacks \<Rightarrow> nat \<Rightarrow> 'x state \<Rightarrow> 'x state result" where
  "processProps fuel env root firstTokenStart s =
     (case getLineNumberForIndex firstTokenStart s of (lineNumber, s1) \<Rightarrow>
      case getFilenameVarName env s1 of (fileName, s2) \<Rightarrow>
        (let devProps = str ''__self: this, __source: {fileName: '' @ fileName
                        @ str '', lineNumber: '' @ decimal lineNumber @ str ''}'' in
         if \<not> matches1 s2 tt_jsxName \<and> \<not> matches1 s2 tt_braceL then
           ret (appendCode (str '', {'' @ devProps @ str ''}'') s2)
         else
           andThen (processProps_loop fuel env root (appendCode (str '', {'') s2)) (\<lambda>s3.
           ret (appendCode (str '' '' @ devProps @ str ''}'') s3))))"

subsection \<open>The tag name\<close>

text \<open>
  \<open>s[0].toLowerCase()\<close> on one code unit: the ASCII capitals map to their small letters,
  the other ASCII characters to themselves; beyond ASCII the mapping is the parameter.
  \<open>s[0]\<close> of the empty string is \<open>undefined\<close>, and the call throws.
\<close>

definition toLowerCase :: "'x env \<Rightarrow> nat \<Rightarrow> jsstring" where
  "toLowerCase env c =
     (if c < 128 then [if 65 \<le> c \<and> c \<le> 90 then c + 32 else c] else unicodeToLowerCase env c)"

definition startsWithLowerCase :: "'x env \<Rightarrow> jsstring \<Rightarrow> bool result" where
  "startsWithLowerCase env s =
     (case s of [] \<Rightarrow> raise TypeError | c # cs \<Rightarrow> ret ([c] = toLowerCase env c))"

text \<open>The first loop of \<open>processTagIntro\<close>: it returns the final value of \<open>introEnd\<close>.\<close>

primrec processTagIntro_introEnd :: "nat \<Rightarrow> 'x state \<Rightarrow> nat \<Rightarrow> nat result" where
  "processTagIntro_introEnd 0 s introEnd = None"
| "processTagIntro_introEnd (Suc fuel) s introEnd =
     (if \<not> matchesAtIndex s (introEnd - 1) [tt_jsxName, tt_jsxName] \<and>
         \<not> matchesAtIndex s introEnd [tt_braceL] \<and>
         \<not> matchesAtIndex s introEnd [tt_jsxTagEnd] \<and>
         \<not> matchesAtIndex s introEnd [tt_slash, tt_jsxTagEnd]
      then processTagIntro_introEnd fuel s (introEnd + 1)
      else ret introEnd)"

text \<open>The last loop: \<open>while (this.tokens.currentIndex() < introEnd)\<close>.\<close>

primrec processTagIntro_loop :: "nat \<Rightarrow> 'x callbacks \<Rightarrow> nat \<Rightarrow> 'x state \<Rightarrow> 'x state result" where
  "processTagIntro_loop 0 root introEnd s = None"
| "processTagIntro_loop (Suc fuel) root introEnd s =
     (if currentIndex s < introEnd
      then andThen (cb_processToken root s) (processTagIntro_loop fuel root introEnd)
      else ret s)"

definition processTagIntro :: "nat \<Rightarrow> 'x env \<Rightarrow> 'x callbacks \<Rightarrow> 'x state \<Rightarrow> 'x state result" where
  "processTagIntro fuel env root s =
     andThen (processTagIntro_introEnd fuel s (currentIndex s + 1)) (\<lambda>introEnd.
     andThen (if introEnd = currentIndex s + 1 then
                andThen (identifierName s) (\<lambda>tagName.
                andThen (startsWithLowerCase env tagName) (\<lambda>lower.
                if lower then replaceToken ([39] @ tagName @ [39]) s else ret s))
              else ret s)
       (processTagIntro_loop fuel root introEnd))"

subsection \<open>Children\<close>

definition processChildTextElement :: "'x env \<Rightarrow> 'x state \<Rightarrow> 'x state result" where
  "processChildTextElement env s =
     (case currentToken s of
        None \<Rightarrow> raise TypeError
      | Some t \<Rightarrow>
          (let valueCode = slice (code s) (start t) (end' t);
               replacementCode = formatJSXTextReplacement valueCode in
           case formatJSXTextLiteral (XHTMLEntities env) valueCode of
             Inl e \<Rightarrow> raise e
           | Inr literalCode \<Rightarrow>
               if literalCode = [34, 34] then replaceToken replacementCode s
               else replaceToken (str '', '' @ literalCode @ replacementCode) s))"

text \<open>
  The \<open>while (true)\<close> loop of \<open>processChildren\<close>. \<open>tag\<close> is \<open>this.processJSXTag\<close>, which
  is defined after it.
\<close>

primrec processChildren ::
  "nat \<Rightarrow> 'x env \<Rightarrow> 'x callbacks \<Rightarrow> ('x state \<Rightarrow> 'x state result) \<Rightarrow> 'x state \<Rightarrow> 'x state result" where
  "processChildren 0 env root tag s = None"
| "processChildren (Suc fuel) env root tag s =
     (if matches2 s tt_jsxTagStart tt_slash then ret s
      else if matches1 s tt_braceL then
        (if matches2 s tt_braceL tt_braceR then
           andThen (replaceToken [] s) (\<lambda>s1.
           andThen (replaceToken [] s1) (processChildren fuel env root tag))
         else
           andThen (replaceToken (str '', '') s) (\<lambda>s1.
           andThen (cb_processBalancedCode root s1) (\<lambda>s2.
           andThen (replaceToken [] s2) (processChildren fuel env root tag))))
      else if matches1 s tt_jsxTagStart then
        andThen (tag (appendCode (str '', '') s)) (processChildren fuel env root tag)
      else if matches1 s tt_jsxText then
        andThen (processChildTextElement env s) (processChildren fuel env root tag)
      else raise (Error ''Unexpected token when processing JSX children.''))"

subsection \<open>processJSXTag\<close>

text \<open>The loop \<open>while (!this.tokens.matches1(tt.jsxTagEnd)) this.tokens.replaceToken("")\<close>.\<close>

primrec processJSXTag_closing :: "nat \<Rightarrow> 'x state \<Rightarrow> 'x state result" where
  "processJSXTag_closing 0 s = None"
| "processJSXTag_closing (Suc fuel) s =
     (if \<not> matches1 s tt_jsxTagEnd
      then andThen (replaceToken [] s) (processJSXTag_closing fuel)
      else ret s)"

primrec processJSXTag :: "nat \<Rightarrow> 'x env \<Rightarrow> 'x callbacks \<Rightarrow> 'x state \<Rightarrow> 'x state result" where
  "processJSXTag 0 env root s = None"
| "processJSXTag (Suc fuel) env root s =
     (let resolvedReactName =
            (case getIdentifierReplacement env (str ''React'') (ext s) of
               None \<Rightarrow> str ''React''
             | Some r \<Rightarrow> if r = [] then str ''React'' else r) in
      case currentToken s of
        None \<Rightarrow> raise TypeError
      | Some t \<Rightarrow>
          (let firstTokenStart = start t in
           andThen (replaceToken (resolvedReactName @ str ''.createElement('') s) (\<lambda>s1.
           andThen (processTagIntro fuel env root s1) (\<lambda>s2.
           andThen (processProps fuel env root firstTokenStart s2) (\<lambda>s3.
           if matches2 s3 tt_slash tt_jsxTagEnd then
             andThen (replaceToken [] s3) (replaceToken (str '')''))
           else if matches1 s3 tt_jsxTagEnd then
             andThen (replaceToken [] s3) (\<lambda>s4.
             andThen (processChildren fuel env root (processJSXTag fuel env root) s4) (\<lambda>s5.
             andThen (processJSXTag_closing fuel s5) (replaceToken (str '')''))))
           else raise (Error ''Expected either /> or > at the end of the tag.''))))))"

definition JSXTransformer_process ::
  "nat \<Rightarrow> 'x env \<Rightarrow> 'x callbacks \<Rightarrow> 'x state \<Rightarrow> (bool \<times> 'x state) result" where
  "JSXTransformer_process fuel env root s =
     (if matches1 s tt_jsxTagStart
      then andThen (processJSXTag fuel env root s) (\<lambda>s'. ret (True, s'))
      else ret (False, s))"

section \<open>The transform orchestrator (RootTransformer)\<close>

subsection \<open>The constructor\<close>

definition RootTransformer_constructor :: "Transform list \<Rightarrow> error + Transformer list" where
  "RootTransformer_constructor transforms =
     (let ts0 = [NumericSeparatorTransformer, OptionalCatchBindingTransformer];
          ts1 = (if T_jsx \<in> set transforms
                 then ts0 @ [JSXTransformer, ReactDisplayNameTransformer] else ts0);
          ts2 = (if T_imports \<in> set transforms
                 then ts1 @ [ImportTransformer (T_add_module_exports \<in> set transforms)]
                 else ts1);
          ts3 = (if T_flow \<in> set transforms then ts2 @ [FlowTransformer] else ts2)
      in if T_typescript \<in> set transforms then
           (if T_imports \<notin> set transforms then
              Inl (Error ''The TypeScript transform without the import transform is not yet supported.'')
            else Inr (ts3 @ [TypeScriptTransformer]))
         else Inr ts3)"

subsection \<open>processBalancedCode\<close>

text \<open>
  The \<open>while\<close> loop, with the two depth counters as arguments. The inner \<open>None\<close> of the
  two depth updates is the \<open>return\<close> at a closer that meets depth 0.
\<close>

primrec processBalancedCode_loop ::
  "nat \<Rightarrow> 'x callbacks \<Rightarrow> nat \<Rightarrow> nat \<Rightarrow> 'x state \<Rightarrow> 'x state result" where
  "processBalancedCode_loop 0 root braceDepth parenDepth s = None"
| "processBalancedCode_loop (Suc fuel) root braceDepth parenDepth s =
     (if isAtEnd s then ret s
      else
        (case (if matches1 s tt_braceL \<or> matches1 s tt_dollarBraceL then Some (braceDepth + 1)
               else if matches1 s tt_braceR
                    then (if braceDepth = 0 then None else Some (braceDepth - 1))
               else Some braceDepth) of
           None \<Rightarrow> ret s
         | Some braceDepth' \<Rightarrow>
             (case (if matches1 s tt_parenL then Some (parenDepth + 1)
                    else if matches1 s tt_parenR
                         then (if parenDepth = 0 then None else Some (parenDepth - 1))
                    else Some parenDepth) of
                None \<Rightarrow> ret s
              | Some parenDepth' \<Rightarrow>
                  andThen (cb_processToken root s)
                    (processBalancedCode_loop fuel root braceDepth' parenDepth'))))"

definition processBalancedCode :: "nat \<Rightarrow> 'x callbacks \<Rightarrow> 'x state \<Rightarrow> 'x state result" where
  "processBalancedCode fuel root s = processBalancedCode_loop fuel root 0 0 s"

subsection \<open>processToken\<close>

text \<open>
  \<open>transformer.process()\<close>: the JSX transformer's is defined above, the others' are
  parameters.
\<close>

definition process ::
  "nat \<Rightarrow> 'x env \<Rightarrow> 'x callbacks \<Rightarrow> Transformer \<Rightarrow> 'x state \<Rightarrow> (bool \<times> 'x state) result" where
  "process fuel env root transformer s =
     (if transformer = JSXTransformer then JSXTransformer_process fuel env root s
      else Transformer_process env transformer root s)"

text \<open>The \<open>for\<close> loop over the transformers, and the \<open>copyToken\<close> after it.\<close>

primrec processToken_transformers ::
  "Transformer list \<Rightarrow> nat \<Rightarrow> 'x env \<Rightarrow> 'x callbacks \<Rightarrow> 'x state \<Rightarrow> 'x state result" where
  "processToken_transformers [] fuel env root s = copyToken s"
| "processToken_transformers (transformer # rest) fuel env root s =
     andThen (process fuel env root transformer s) (\<lambda>(wasProcessed, s').
       if wasProcessed then ret s' else processToken_transformers rest fuel env root s')"

definition processToken ::
  "nat \<Rightarrow> 'x env \<Rightarrow> Transformer list \<Rightarrow> 'x callbacks \<Rightarrow> 'x state \<Rightarrow> 'x state result" where
  "processToken fuel env transformers root s =
     (if matches1 s tt_class then cb_processClass root s
      else processToken_transformers transformers fuel env root s)"

subsection \<open>Classes\<close>

definition processNamedClass :: "'x callbacks \<Rightarrow> 'x state \<Rightarrow> (jsstring \<times> 'x state) result" where
  "processNamedClass root s =
     (if \<not> matches2 s tt_class tt_name then
        raise (Error ''Expected identifier for exported class name.'')
      else
        andThen (identifierNameAtIndex s (currentIndex s + 1)) (\<lambda>name.
        andThen (cb_processClass root s) (\<lambda>s'. ret (name, s'))))"

text \<open>The loop \<open>while (this.tokens.currentIndex() < fieldRanges[fieldIndex].end)\<close>.\<close>

primrec processClassBody_remove :: "nat \<Rightarrow> 'x env \<Rightarrow> nat \<Rightarrow> 'x state \<Rightarrow> 'x state result" where
  "processClassBody_remove 0 env rangeEnd s = None"
| "processClassBody_remove (Suc fuel) env rangeEnd s =
     (if currentIndex s < rangeEnd
      then andThen (removeToken env s) (processClassBody_remove fuel env rangeEnd)
      else ret s)"

text \<open>
  The loop \<open>while (!this.tokens.matchesContextIdAndLabel(tt.braceR, classContextId))\<close>,
  with \<open>fieldIndex\<close> as an argument.
\<close>

primrec processClassBody_loop ::
  "nat \<Rightarrow> 'x env \<Rightarrow> 'x callbacks \<Rightarrow> ClassInfo \<Rightarrow> nat \<Rightarrow> nat \<Rightarrow> 'x state \<Rightarrow> 'x state result" where
  "processClassBody_loop 0 env root classInfo classContextId fieldIndex s = None"
| "processClassBody_loop (Suc fuel) env root classInfo classContextId fieldIndex s =
     (if matchesContextIdAndLabel s tt_braceR classContextId then ret s
      else if fieldIndex < length (fieldRanges classInfo) \<and>
              currentIndex s = fst (fieldRanges classInfo ! fieldIndex) then
        andThen (removeInitialToken env s) (\<lambda>s1.
        andThen (processClassBody_remove fuel env (snd (fieldRanges classInfo ! fieldIndex)) s1)
          (processClassBody_loop fuel env root classInfo classContextId (fieldIndex + 1)))
      else if Some (currentIndex s) = constructorInsertPos classInfo then
        andThen (copyToken s) (\<lambda>s1.
        andThen (cb_processToken root
                   (if initializerStatements classInfo \<noteq> []
                    then appendCode (str '';'' @ join (str '';'') (initializerStatements classInfo)
                                     @ str '';'') s1
                    else s1))
          (processClassBody_loop fuel env root classInfo classContextId fieldIndex))
      else
        andThen (cb_processToken root s)
          (processClassBody_loop fuel env root classInfo classContextId fieldIndex))"

text \<open>
  The constructor that \<open>processClassBody\<close> appends when the class has none and has
  initializers: the new state, in which the name for the rest parameter is claimed.
\<close>

definition processClassBody_constructor :: "'x env \<Rightarrow> ClassInfo \<Rightarrow> 'x state \<Rightarrow> 'x state" where
  "processClassBody_constructor env classInfo s =
     (if constructorInsertPos classInfo = None \<and> initializerStatements classInfo \<noteq> [] then
        (let initializersCode = join (str '';'') (initializerStatements classInfo) in
         if hasSuperclass (headerInfo classInfo) then
           (case claimFreeName env (str ''args'') (ext s) of (argsName, x) \<Rightarrow>
              appendCode (str ''constructor(...'' @ argsName @ str '') { super(...'' @ argsName
                          @ str ''); '' @ initializersCode @ str ''; }'')
                (s\<lparr>ext := x\<rparr>))
         else appendCode (str ''constructor() { '' @ initializersCode @ str ''; }'') s)
      else s)"

definition processClassBody ::
  "nat \<Rightarrow> 'x env \<Rightarrow> 'x callbacks \<Rightarrow> ClassInfo \<Rightarrow> 'x state \<Rightarrow> 'x state result" where
  "processClassBody fuel env root classInfo s =
     (case currentToken s of
        None \<Rightarrow> raise TypeError
      | Some t \<Rightarrow>
          (case contextId t of
             None \<Rightarrow> raise (Error ''Expected non-null context ID on class.'')
           | Some classContextId \<Rightarrow>
               andThen (copyExpectedToken tt_braceL s) (\<lambda>s1.
               andThen (processClassBody_loop fuel env root classInfo classContextId 0
                          (processClassBody_constructor env classInfo s1))
                 (copyExpectedToken tt_braceR))))"

text \<open>The loop \<open>while (!this.tokens.matchesContextIdAndLabel(tt.braceL, contextId))\<close>.\<close>

primrec processClass_header :: "nat \<Rightarrow> 'x callbacks \<Rightarrow> nat \<Rightarrow> 'x state \<Rightarrow> 'x state result" where
  "processClass_header 0 root cid s = None"
| "processClass_header (Suc fuel) root cid s =
     (if \<not> matchesContextIdAndLabel s tt_braceL cid
      then andThen (cb_processToken root s) (processClass_header fuel root cid)
      else ret s)"

text \<open>\<open>className\<close> in a template literal: \<open>null\<close> prints as the word.\<close>

definition templateName :: "jsstring option \<Rightarrow> jsstring" where
  "templateName n = (case n of None \<Rightarrow> str ''null'' | Some v \<Rightarrow> v)"

text \<open>
  The middle of \<open>processClass\<close>: the \<open>class\<close> token, the header up to the opening brace
  of the body, and the body.
\<close>

definition processClass_construct ::
  "nat \<Rightarrow> 'x env \<Rightarrow> 'x callbacks \<Rightarrow> ClassInfo \<Rightarrow> nat \<Rightarrow> 'x state \<Rightarrow> 'x state result" where
  "processClass_construct fuel env root classInfo cid s =
     andThen (copyExpectedToken tt_class s) (\<lambda>s1.
     andThen (processClass_header fuel root cid s1) (processClassBody fuel env root classInfo))"

definition processClass :: "nat \<Rightarrow> 'x env \<Rightarrow> 'x callbacks \<Rightarrow> 'x state \<Rightarrow> 'x state result" where
  "processClass fuel env root s0 =
     andThen (getClassInfo env root s0) (\<lambda>(classInfo, s).
       (let needsCommaExpression =
              (isExpression (headerInfo classInfo) \<and> staticInitializerSuffixes classInfo \<noteq> []);
            claimed = claimFreeName env (str ''_class'') (ext s);
            className = (if needsCommaExpression then Some (fst claimed)
                         else className (headerInfo classInfo));
            s1 = (if needsCommaExpression then
                    appendCode (str '' ('' @ fst claimed @ str '' ='')
                      (s\<lparr>ext := snd claimed,
                          generatedVariables := generatedVariables s @ [fst claimed]\<rparr>)
                  else s) in
        case currentToken s1 of
          None \<Rightarrow> raise TypeError
        | Some classToken \<Rightarrow>
            (case contextId classToken of
               None \<Rightarrow> raise (Error ''Expected class to have a context ID.'')
             | Some cid \<Rightarrow>
                 andThen (processClass_construct fuel env root classInfo cid s1) (\<lambda>s4.
                   (let staticInitializerStatements =
                          map (\<lambda>suffix. templateName className @ suffix)
                            (staticInitializerSuffixes classInfo) in
                    if needsCommaExpression then
                      ret (appendCode (str '', '' @ join (str '', '') staticInitializerStatements
                                       @ str '', '' @ templateName className @ str '')'') s4)
                    else if staticInitializerSuffixes classInfo \<noteq> [] then
                      ret (appendCode (str '' '' @ join (str ''; '') staticInitializerStatements
                                       @ str '';'') s4)
                    else ret s4)))))"

subsection \<open>processPossibleTypeRange\<close>

primrec processPossibleTypeRange_loop :: "nat \<Rightarrow> 'x env \<Rightarrow> 'x state \<Rightarrow> 'x state result" where
  "processPossibleTypeRange_loop 0 env s = None"
| "processPossibleTypeRange_loop (Suc fuel) env s =
     (case currentToken s of
        None \<Rightarrow> raise TypeError
      | Some t \<Rightarrow>
          if isType t then andThen (removeToken env s) (processPossibleTypeRange_loop fuel env)
          else ret s)"

definition processPossibleTypeRange ::
  "nat \<Rightarrow> 'x env \<Rightarrow> 'x state \<Rightarrow> (bool \<times> 'x state) result" where
  "processPossibleTypeRange fuel env s =
     (case currentToken s of
        None \<Rightarrow> raise TypeError
      | Some t \<Rightarrow>
          if isType t then
            andThen (removeInitialToken env s) (\<lambda>s1.
            andThen (processPossibleTypeRange_loop fuel env s1) (\<lambda>s2. ret (True, s2)))
          else ret (False, s))"

subsection \<open>transform\<close>

definition getPrefixCode :: "'x env \<Rightarrow> Transformer \<Rightarrow> 'x state \<Rightarrow> jsstring" where
  "getPrefixCode env transformer s =
     (if transformer = JSXTransformer then JSXTransformer_getPrefixCode env s
      else Transformer_getPrefixCode env transformer s)"

text \<open>\<open>t instanceof ImportTransformer\<close>.\<close>

definition isImportTransformer :: "Transformer \<Rightarrow> bool" where
  "isImportTransformer t = (case t of ImportTransformer b \<Rightarrow> True | _ \<Rightarrow> False)"

text \<open>\<open>code.indexOf("\n")\<close>: \<open>None\<close> for \<open>-1\<close>.\<close>

definition indexOfNewline :: "jsstring \<Rightarrow> nat option" where
  "indexOfNewline c = (if 10 \<in> set c then Some (length (takeWhile (\<lambda>x. x \<noteq> 10) c)) else None)"

definition transform ::
  "'x env \<Rightarrow> Transformer list \<Rightarrow> 'x callbacks \<Rightarrow> 'x state \<Rightarrow> jsstring result" where
  "transform env transformers root s0 =
     andThen (cb_processBalancedCode root (reset s0)) (\<lambda>s.
       (let shouldAddUseStrict = list_ex isImportTransformer transformers;
            prefix = (if shouldAddUseStrict then str ''\"use strict\";'' else [])
                     @ concat (map (\<lambda>t. getPrefixCode env t s) transformers)
                     @ concat (map (\<lambda>v. str '' var '' @ v @ str '';'') (generatedVariables s));
            suffix = concat (map (\<lambda>t. Transformer_getSuffixCode env t s) transformers);
            code0 = finish s in
        if take 2 code0 = str ''#!'' then
          (case indexOfNewline code0 of
             None \<Rightarrow>
               (let newlineIndex = length code0; code1 = code0 @ [10] in
                ret (slice code1 0 (newlineIndex + 1) @ prefix
                     @ drop (newlineIndex + 1) code1 @ suffix))
           | Some newlineIndex \<Rightarrow>
               ret (slice code0 0 (newlineIndex + 1) @ prefix
                    @ drop (newlineIndex + 1) code0 @ suffix))
        else ret (prefix @ finish s @ suffix)))"

subsection \<open>The orchestrator's methods, tied together\<close>

text \<open>
  \<open>rootTransformer fuel env transformers\<close> is the orchestrator as its collaborators see
  it: each method is the definition above, calling the methods of the orchestrator with
  one unit of fuel less. With no fuel no call returns.
\<close>

primrec rootTransformer :: "nat \<Rightarrow> 'x env \<Rightarrow> Transformer list \<Rightarrow> 'x callbacks" where
  "rootTransformer 0 env transformers =
     \<lparr>cb_processBalancedCode = (\<lambda>s. None), cb_processToken = (\<lambda>s. None),
      cb_processClass = (\<lambda>s. None), cb_processNamedClass = (\<lambda>s. None),
      cb_processPossibleTypeRange = (\<lambda>s. None)\<rparr>"
| "rootTransformer (Suc fuel) env transformers =
     \<lparr>cb_processBalancedCode = processBalancedCode fuel (rootTransformer fuel env transformers),
      cb_processToken = processToken fuel env transformers (rootTransformer fuel env transformers),
      cb_processClass = processClass fuel env (rootTransformer fuel env transformers),
      cb_processNamedClass = processNamedClass (rootTransformer fuel env transformers),
      cb_processPossibleTypeRange = processPossibleTypeRange fuel env\<rparr>"

text \<open>
  Modelled from the spec: the entry point (src/index.ts) is not in the sources. The spec
  (sections 2 and 4.3) has the configuration validated when the orchestrator is built,
  before it walks the token sequence the parser produced: one run is the constructor, then
  \<open>transform\<close>.
\<close>

definition run ::
  "nat \<Rightarrow> 'x env \<Rightarrow> Transform list \<Rightarrow> 'x state \<Rightarrow> jsstring result" where
  "run fuel env transforms s =
     (case RootTransformer_constructor transforms of
        Inl e \<Rightarrow> raise e
      | Inr transformers \<Rightarrow> transform env transformers (rootTransformer fuel env transformers) s)"

section \<open>Binding patterns (sucrase-babylon/parser/lval)\<close>

text \<open>
  The parser's module-level \<open>state\<close>: the type of the current token, the tokens produced
  so far, and in \<open>state_rest\<close> everything else of it (input, position, contexts).
\<close>

record 'p parserState =
  state_type :: TokenType
  state_tokens :: "token list"
  state_rest :: 'p

text \<open>
  The functions \<open>lval.ts\<close> imports, as parameters: the tokenizer's \<open>next\<close> (here \<open>next'\<close>), \<open>eat\<close>,
  \<open>match\<close> and \<open>runInTypeContext\<close>, the parser's \<open>expect\<close>, \<open>hasPlugin\<close>, \<open>parseIdentifier\<close>, \<open>parseMaybeAssign\<close> (its argument \<open>noIn\<close>,
  \<open>None\<close> when it is left out) and \<open>parseObj\<close>, and the type parsers of the Flow and
  TypeScript plugins.
\<close>

record 'p parserEnv =
  next' :: "'p parserState \<Rightarrow> 'p parserState result"
  eat :: "TokenType \<Rightarrow> 'p parserState \<Rightarrow> (bool \<times> 'p parserState) result"
  match :: "TokenType \<Rightarrow> 'p parserState \<Rightarrow> bool"
  runInTypeContext ::
    "nat \<Rightarrow> ('p parserState \<Rightarrow> 'p parserState result) \<Rightarrow> 'p parserState \<Rightarrow> 'p parserState result"
  expect :: "TokenType \<Rightarrow> 'p parserState \<Rightarrow> 'p parserState result"
  hasPlugin :: "string \<Rightarrow> bool"
  parseIdentifier :: "'p parserState \<Rightarrow> 'p parserState result"
  parseMaybeAssign :: "bool option \<Rightarrow> 'p parserState \<Rightarrow> 'p parserState result"
  parseObj :: "bool \<Rightarrow> bool \<Rightarrow> 'p parserState \<Rightarrow> 'p parserState result"
  flowParseAssignableListItemTypes :: "'p parserState \<Rightarrow> 'p parserState result"
  tsParseAssignableListItemTypes :: "'p parserState \<Rightarrow> 'p parserState result"
  tsParseAccessModifier :: "'p parserState \<Rightarrow> 'p parserState result"
  tsParseModifier_readonly :: "'p parserState \<Rightarrow> 'p parserState result"

text \<open>
  Modelled from the spec: \<open>unexpected\<close> (sucrase-babylon/parser/util) is not in the
  sources. By the spec (sections 4.1 and 7) a token that cannot begin a binding is a syntax
  error; its source offset and message are not modelled.
\<close>

definition unexpected :: error where
  "unexpected = SyntaxError"

definition parseSpread :: "'p parserEnv \<Rightarrow> 'p parserState \<Rightarrow> 'p parserState result" where
  "parseSpread penv s = andThen (next' penv s) (parseMaybeAssign penv (Some False))"

definition parseBindingIdentifier :: "'p parserEnv \<Rightarrow> 'p parserState \<Rightarrow> 'p parserState result" where
  "parseBindingIdentifier penv s = parseIdentifier penv s"

text \<open>
  \<open>state.tokens[state.tokens.length - 1].f = v\<close>: a \<open>TypeError\<close> when there is no token.
\<close>

definition updateLastToken ::
  "(token \<Rightarrow> token) \<Rightarrow> 'p parserState \<Rightarrow> 'p parserState result" where
  "updateLastToken f s =
     (if state_tokens s = [] then raise TypeError
      else ret (s\<lparr>state_tokens :=
                   (state_tokens s)[length (state_tokens s) - 1 := f (last (state_tokens s))]\<rparr>))"

definition parseAssignableListItemTypes :: "'p parserEnv \<Rightarrow> 'p parserState \<Rightarrow> 'p parserState result" where
  "parseAssignableListItemTypes penv s =
     (if hasPlugin penv ''flow'' then flowParseAssignableListItemTypes penv s
      else if hasPlugin penv ''typescript'' then tsParseAssignableListItemTypes penv s
      else ret s)"

text \<open>
  \<open>parseBindingAtom\<close> and the functions that call it back are defined over \<open>atom\<close>, which
  stands for \<open>parseBindingAtom\<close>; \<open>parseBindingAtom\<close> itself then passes itself with one
  unit of fuel less.
\<close>

definition parseRest ::
  "'p parserEnv \<Rightarrow> (bool \<Rightarrow> 'p parserState \<Rightarrow> 'p parserState result) \<Rightarrow> bool
     \<Rightarrow> 'p parserState \<Rightarrow> 'p parserState result" where
  "parseRest penv atom isBlockScope s = andThen (next' penv s) (atom isBlockScope)"

definition parseMaybeDefault ::
  "'p parserEnv \<Rightarrow> (bool \<Rightarrow> 'p parserState \<Rightarrow> 'p parserState result) \<Rightarrow> bool \<Rightarrow> bool
     \<Rightarrow> 'p parserState \<Rightarrow> 'p parserState result" where
  "parseMaybeDefault penv atom isBlockScope leftAlreadyParsed s =
     andThen (if \<not> leftAlreadyParsed then atom isBlockScope s else ret s) (\<lambda>s1.
     andThen (eat penv tt_eq s1) (\<lambda>(eaten, s2).
       if \<not> eaten then ret s2 else parseMaybeAssign penv None s2))"

definition parseAssignableListItem ::
  "'p parserEnv \<Rightarrow> (bool \<Rightarrow> 'p parserState \<Rightarrow> 'p parserState result) \<Rightarrow> bool \<Rightarrow> bool
     \<Rightarrow> 'p parserState \<Rightarrow> 'p parserState result" where
  "parseAssignableListItem penv atom allowModifiers isBlockScope s =
     andThen (if allowModifiers
              then andThen (tsParseAccessModifier penv s) (tsParseModifier_readonly penv)
              else ret s) (\<lambda>s1.
     andThen (parseMaybeDefault penv atom isBlockScope False s1) (\<lambda>s2.
     andThen (parseAssignableListItemTypes penv s2)
       (parseMaybeDefault penv atom isBlockScope True)))"

text \<open>
  The \<open>while (!eat(close))\<close> loop of \<open>parseBindingList\<close>, with \<open>first\<close> and
  \<open>hasRemovedComma\<close> as arguments. \<open>allowEmpty\<close> left out and \<open>allowModifiers\<close> left at
  \<open>null\<close> are \<open>False\<close>.
\<close>

primrec parseBindingList_loop ::
  "nat \<Rightarrow> 'p parserEnv \<Rightarrow> (bool \<Rightarrow> 'p parserState \<Rightarrow> 'p parserState result) \<Rightarrow> TokenType
     \<Rightarrow> bool \<Rightarrow> bool \<Rightarrow> bool \<Rightarrow> nat \<Rightarrow> bool \<Rightarrow> bool \<Rightarrow> 'p parserState \<Rightarrow> 'p parserState result" where
  "parseBindingList_loop 0 penv atom close isBlockScope allowEmpty allowModifiers
     firstItemTokenIndex first hasRemovedComma s = None"
| "parseBindingList_loop (Suc fuel) penv atom close isBlockScope allowEmpty allowModifiers
     firstItemTokenIndex first hasRemovedComma s =
     andThen (eat penv close s) (\<lambda>(closed, s1).
       if closed then ret s1
       else
         andThen
           (if first then ret (hasRemovedComma, s1)
            else
              andThen (expect penv tt_comma s1) (\<lambda>s2.
                if \<not> hasRemovedComma then
                  (if firstItemTokenIndex < length (state_tokens s2) then
                     (if isType (state_tokens s2 ! firstItemTokenIndex) then
                        andThen (updateLastToken (\<lambda>t. t\<lparr>isType := True\<rparr>) s2)
                          (\<lambda>s3. ret (True, s3))
                      else ret (False, s2))
                   else raise TypeError)
                else ret (hasRemovedComma, s2)))
           (\<lambda>(hasRemovedComma', s4).
              if allowEmpty \<and> match penv tt_comma s4 then
                parseBindingList_loop fuel penv atom close isBlockScope allowEmpty allowModifiers
                  firstItemTokenIndex False hasRemovedComma' s4
              else
                andThen (eat penv close s4) (\<lambda>(closed', s5).
                  if closed' then ret s5
                  else if match penv tt_ellipsis s5 then
                    andThen (parseRest penv atom isBlockScope s5) (\<lambda>s6.
                    andThen (parseAssignableListItemTypes penv s6) (expect penv close))
                  else
                    andThen (parseAssignableListItem penv atom allowModifiers isBlockScope s5)
                      (parseBindingList_loop fuel penv atom close isBlockScope allowEmpty
                         allowModifiers firstItemTokenIndex False hasRemovedComma'))))"

definition parseBindingList ::
  "nat \<Rightarrow> 'p parserEnv \<Rightarrow> (bool \<Rightarrow> 'p parserState \<Rightarrow> 'p parserState result) \<Rightarrow> TokenType
     \<Rightarrow> bool \<Rightarrow> bool \<Rightarrow> bool \<Rightarrow> 'p parserState \<Rightarrow> 'p parserState result" where
  "parseBindingList fuel penv atom close isBlockScope allowEmpty allowModifiers s =
     parseBindingList_loop fuel penv atom close isBlockScope allowEmpty allowModifiers
       (length (state_tokens s)) True False s"

primrec parseBindingAtom ::
  "nat \<Rightarrow> 'p parserEnv \<Rightarrow> bool \<Rightarrow> 'p parserState \<Rightarrow> 'p parserState result" where
  "parseBindingAtom 0 penv isBlockScope s = None"
| "parseBindingAtom (Suc fuel) penv isBlockScope s =
     (if state_type s = tt_this then
        runInTypeContext penv 0 (next' penv) s
      else if state_type s = tt_yield \<or> state_type s = tt_name then
        andThen (parseBindingIdentifier penv (s\<lparr>state_type := tt_name\<rparr>))
          (updateLastToken (\<lambda>t. t\<lparr>identifierRole :=
             Some (if isBlockScope then BlockScopedDeclaration
                   else FunctionScopedDeclaration)\<rparr>))
      else if state_type s = tt_bracketL then
        andThen (next' penv s)
          (parseBindingList fuel penv (parseBindingAtom fuel penv) tt_bracketR isBlockScope
             True False)
      else if state_type s = tt_braceL then
        parseObj penv True isBlockScope s
      else raise unexpected)"

section \<open>Values for the examples\<close>

text \<open>
  A token without annotations, and the state of the objects as their constructors leave
  it: nothing emitted, the cursor on the first token, line 1.
\<close>

definition newToken :: "TokenType \<Rightarrow> nat \<Rightarrow> nat \<Rightarrow> token" where
  "newToken t a b =
     \<lparr>type = t, start = a, end' = b, contextId = None, identifierRole = None, isType = False\<rparr>"

definition initialState :: "jsstring \<Rightarrow> token list \<Rightarrow> 'x \<Rightarrow> 'x state" where
  "initialState c ts x =
     \<lparr>code = c, tokens = ts, resultCode = [], tokenIndex = 0, generatedVariables = [],
      lastLineNumber = 1, lastIndex = 0, filenameVarName = None, ext = x\<rparr>"

definition copyingRoot :: "unit callbacks" where
  "copyingRoot =
     \<lparr>cb_processBalancedCode = (\<lambda>s. None), cb_processToken = copyToken,
      cb_processClass = (\<lambda>s. None), cb_processNamedClass = (\<lambda>s. None),
      cb_processPossibleTypeRange = (\<lambda>s. None)\<rparr>"

text \<open>
  Collaborators for the examples: an entity table with \<open>amp\<close> only, a name allocator that
  returns the preferred name, no import bindings, removals that emit the text before the
  token, no class (\<open>getClassInfo\<close> throws), and transformers that claim no token and
  inject nothing.
\<close>

definition plainEnv :: "unit env" where
  "plainEnv =
     \<lparr>XHTMLEntities = (\<lambda>n. if n = str ''amp'' then Some (str ''&'') else None),
      unicodeToLowerCase = (\<lambda>c. [c]),
      filePath = None,
      claimFreeName = (\<lambda>n x. (n, x)),
      getIdentifierReplacement = (\<lambda>n x. None),
      removeInitialToken = replaceToken [],
      removeToken = replaceToken [],
      getClassInfo = (\<lambda>root s. raise (Error ''no class'')),
      Transformer_process = (\<lambda>t root s. ret (False, s)),
      Transformer_getPrefixCode = (\<lambda>t s. []),
      Transformer_getSuffixCode = (\<lambda>t s. [])\<rparr>"

text \<open>
  The children of \<open><a>{ }</a>\<close>, the cursor on the opening brace.
\<close>

definition emptyInterpolationExample :: "unit state" where
  "emptyInterpolationExample =
     (initialState (str ''<a>{ }</a>'')
        [newToken tt_jsxTagStart 0 1, newToken tt_jsxName 1 2, newToken tt_jsxTagEnd 2 3,
         newToken tt_braceL 3 4, newToken tt_braceR 5 6, newToken tt_jsxTagStart 6 7,
         newToken tt_slash 7 8, newToken tt_jsxName 8 9, newToken tt_jsxTagEnd 9 10] ())
     \<lparr>resultCode := str ''f(a, {}'', tokenIndex := 3\<rparr>"

text \<open>
  The opening tag of an element with the given name, the cursor on the name token after
  the start of the tag was replaced.
\<close>

definition tagExample :: "string \<Rightarrow> unit state" where
  "tagExample name =
     (initialState (str ''<'' @ str name @ str ''>'')
        [newToken tt_jsxTagStart 0 1, newToken tt_jsxName 1 (1 + length name),
         newToken tt_jsxTagEnd (1 + length name) (2 + length name)] ())
     \<lparr>resultCode := str ''React.createElement('', tokenIndex := 1\<rparr>"

text \<open>
  A tokenizer for the examples: \<open>exampleNext\<close> pushes a token of the current type and
  moves to the end of the input; the expression and type parsers accept nothing.
\<close>

definition exampleNext :: "unit parserState \<Rightarrow> unit parserState" where
  "exampleNext s =
     s\<lparr>state_tokens := state_tokens s @ [newToken (state_type s) 0 0], state_type := tt_eof\<rparr>"

definition examplePenv :: "unit parserEnv" where
  "examplePenv =
     \<lparr>next' = (\<lambda>s. ret (exampleNext s)),
      eat = (\<lambda>t s. if state_type s = t then ret (True, exampleNext s) else ret (False, s)),
      match = (\<lambda>t s. state_type s = t),
      runInTypeContext = (\<lambda>n f s. f s),
      expect = (\<lambda>t s. if state_type s = t then ret (exampleNext s) else raise SyntaxError),
      hasPlugin = (\<lambda>p. False),
      parseIdentifier = (\<lambda>s. ret (exampleNext s)),
      parseMaybeAssign = (\<lambda>noIn s. raise SyntaxError),
      parseObj = (\<lambda>isPattern isBlockScope s. raise SyntaxError),
      flowParseAssignableListItemTypes = ret,
      tsParseAssignableListItemTypes = ret,
      tsParseAccessModifier = ret,
      tsParseModifier_readonly = ret\<rparr>"

text \<open>
  The class \<open>class A extends B { x = 1; }\<close>, the cursor on the opening brace of its body,
  and what \<open>getClassInfo\<close> has to say of it.
\<close>

definition classFieldExample :: "unit state" where
  "classFieldExample =
     (initialState (str ''class A extends B { x = 1; }'')
        [(newToken tt_class 0 5)\<lparr>contextId := Some 1\<rparr>, newToken tt_name 6 7,
         newToken (tt_other 0) 8 15, newToken tt_name 16 17,
         (newToken tt_braceL 18 19)\<lparr>contextId := Some 1\<rparr>, newToken tt_name 20 21,
         newToken tt_eq 22 23, newToken tt_num 24 25, newToken (tt_other 1) 25 26,
         (newToken tt_braceR 27 28)\<lparr>contextId := Some 1\<rparr>] ())
     \<lparr>resultCode := str ''class A extends B'', tokenIndex := 4\<rparr>"


text \<open>
  The class expression in \<open>x = class { static y = 1 }\<close>, the cursor on \<open>class\<close>, and the
  class declaration \<open>class A { static y = 1 }\<close>, each with what \<open>getClassInfo\<close> has to
  say of it; \<open>classEnv info\<close> are the collaborators with a \<open>getClassInfo\<close> that returns
  \<open>info\<close>.
\<close>

definition classExpressionExample :: "unit state" where
  "classExpressionExample =
     (initialState (str ''x = class { static y = 1 }'')
        [newToken tt_name 0 1, newToken tt_eq 2 3,
         (newToken tt_class 4 9)\<lparr>contextId := Some 1\<rparr>,
         (newToken tt_braceL 10 11)\<lparr>contextId := Some 1\<rparr>,
         newToken (tt_other 2) 12 18, newToken tt_name 19 20, newToken tt_eq 21 22,
         newToken tt_num 23 24, (newToken tt_braceR 25 26)\<lparr>contextId := Some 1\<rparr>] ())
     \<lparr>resultCode := str ''x ='', tokenIndex := 2\<rparr>"


definition classDeclarationExample :: "unit state" where
  "classDeclarationExample =
     initialState (str ''class A { static y = 1 }'')
        [(newToken tt_class 0 5)\<lparr>contextId := Some 1\<rparr>, newToken tt_name 6 7,
         (newToken tt_braceL 8 9)\<lparr>contextId := Some 1\<rparr>,
         newToken (tt_other 2) 10 16, newToken tt_name 17 18, newToken tt_eq 19 20,
         newToken tt_num 21 22, (newToken tt_braceR 23 24)\<lparr>contextId := Some 1\<rparr>] ()"


definition classEnv :: "ClassInfo \<Rightarrow> unit env" where
  "classEnv info = plainEnv\<lparr>getClassInfo := (\<lambda>root s. ret (info, s))\<rparr>"

text \<open>
  The children of an element \<open>a\<close> with one text run (the letters \<open>a b\<close>, a newline and
  two spaces), the cursor on the text.
\<close>

definition textChildExample :: "unit state" where
  "textChildExample =
     (initialState (str ''<a>a b'' @ [10] @ str ''  </a>'')
        [newToken tt_jsxTagStart 0 1, newToken tt_jsxName 1 2, newToken tt_jsxTagEnd 2 3,
         newToken tt_jsxText 3 9, newToken tt_jsxTagStart 9 10, newToken tt_slash 10 11,
         newToken tt_jsxName 11 12, newToken tt_jsxTagEnd 12 13] ())
     \<lparr>resultCode := str ''f(a, {}'', tokenIndex := 3\<rparr>"

text \<open>
  Modelled from the spec: the import transformer and the import resolver are not in the
  sources. By sections 2 and 6 of the spec the resolver gives, for a name bound by an
  import, the reference that is emitted for it. \<open>importEnv\<close> are collaborators for a file
  that imports \<open>Foo\<close>: the resolver gives \<open>_Foo.default\<close> for the name, and the import
  transformer claims a token that the parser marked as an access to a name and replaces it
  by the reference the resolver gives. The JSX parser (\<open>jsxParseNamespacedName\<close>) marks an
  element name that is a plain identifier as an access: \<open>fooTagExample\<close> is the opening
  tag \<open><Foo>\<close> with that mark, the cursor on the name.
\<close>

definition fooBinding :: "jsstring \<Rightarrow> jsstring option" where
  "fooBinding n = (if n = str ''Foo'' then Some (str ''_Foo.default'') else None)"

definition importEnv :: "unit env" where
  "importEnv =
     plainEnv
       \<lparr>getIdentifierReplacement := (\<lambda>n x. fooBinding n),
        Transformer_process :=
          (\<lambda>t root s.
             case currentToken s of
               None \<Rightarrow> ret (False, s)
             | Some tok \<Rightarrow>
                 if isImportTransformer t \<and> identifierRole tok = Some Access then
                   (case fooBinding (rawCodeForToken s tok) of
                      None \<Rightarrow> ret (False, s)
                    | Some r \<Rightarrow> andThen (replaceToken r s) (\<lambda>s'. ret (True, s')))
                 else ret (False, s))\<rparr>"

definition fooTagExample :: "unit state" where
  "fooTagExample =
     (tagExample ''Foo'')
       \<lparr>tokens := [newToken tt_jsxTagStart 0 1,
                   (newToken tt_jsxName 1 4)\<lparr>identifierRole := Some Access\<rparr>,
                   newToken tt_jsxTagEnd 4 5]\<rparr>"

text \<open>
  The element \<open><a b={c}/>\<close> followed by a closing parenthesis, the cursor on the first
  token.
\<close>

definition propExample :: "unit state" where
  "propExample =
     initialState (str ''<a b={c}/>)'')
       [newToken tt_jsxTagStart 0 1, newToken tt_jsxName 1 2, newToken tt_jsxName 3 4,
        newToken tt_eq 4 5, newToken tt_braceL 5 6, newToken tt_name 6 7,
        newToken tt_braceR 7 8, newToken tt_slash 8 9, newToken tt_jsxTagEnd 9 10,
        newToken tt_parenR 10 11] ()"
section \<open>Notions the claims use\<close>

text \<open>
  The balanced-range walk in the spec's words: every token changes the brace depth and the
  parenthesis depth, both counted from 0 at entry; \<open>balancedPrefix\<close> is the number of
  tokens before the first one that would take a depth below 0, or all of them.
\<close>

definition braceDelta :: "TokenType \<Rightarrow> int" where
  "braceDelta t = (if t = tt_braceL \<or> t = tt_dollarBraceL then 1 else if t = tt_braceR then - 1 else 0)"

definition parenDelta :: "TokenType \<Rightarrow> int" where
  "parenDelta t = (if t = tt_parenL then 1 else if t = tt_parenR then - 1 else 0)"

fun balancedPrefix :: "int \<Rightarrow> int \<Rightarrow> TokenType list \<Rightarrow> nat" where
  "balancedPrefix b p [] = 0"
| "balancedPrefix b p (t # ts) =
     (if b + braceDelta t < 0 \<or> p + parenDelta t < 0 then 0
      else Suc (balancedPrefix (b + braceDelta t) (p + parenDelta t) ts))"

text \<open>The elements of a list strictly between two positions.\<close>

definition between :: "'a list \<Rightarrow> nat \<Rightarrow> nat \<Rightarrow> 'a list" where
  "between xs lo hi = take (hi - Suc lo) (drop (Suc lo) xs)"

text \<open>
  The rounds of a walk. \<open>rounds f ss\<close>: the step \<open>f\<close> takes every state of the list but
  the last to the next one. \<open>walkRounds b p f s ss\<close>: from \<open>s\<close>, with the brace depth \<open>b\<close> and
  the parenthesis depth \<open>p\<close>, the walk makes the rounds \<open>s # ss\<close> and stops in the last
  state. No state but the last is at the end of the tokens; the tokens at the cursor of
  these states (\<open>cursorType\<close>) never take a depth below 0; the last state is at the end of
  the tokens, or the token at its cursor would take a depth below 0.
\<close>

fun rounds :: "('x state \<Rightarrow> 'x state result) \<Rightarrow> 'x state list \<Rightarrow> bool" where
  "rounds f [] = True"
| "rounds f [s] = True"
| "rounds f (s # s1 # ss) = (f s = ret s1 \<and> rounds f (s1 # ss))"

definition cursorType :: "'x state \<Rightarrow> TokenType" where
  "cursorType s = type (tokens s ! tokenIndex s)"

definition walkRounds ::
  "int \<Rightarrow> int \<Rightarrow> ('x state \<Rightarrow> 'x state result) \<Rightarrow> 'x state \<Rightarrow> 'x state list \<Rightarrow> bool" where
  "walkRounds b p f s ss =
     (rounds f (s # ss) \<and>
      list_all (\<lambda>x. \<not> isAtEnd x) (butlast (s # ss)) \<and>
      balancedPrefix b p (map cursorType (butlast (s # ss))) = length ss \<and>
      (\<not> isAtEnd (last (s # ss)) \<longrightarrow>
         balancedPrefix b p (map cursorType (s # ss)) = length ss))"

text \<open>
  A run of tokens that is balanced: it never takes a depth below the level at which it
  starts and it ends at that level. A balanced round keeps the tokens and consumes the
  token at the cursor followed by a balanced run, as a step that consumes one token does
  and as the rewrite of a well-formed element or class does.
\<close>

definition balancedRun :: "TokenType list \<Rightarrow> bool" where
  "balancedRun ts =
     (balancedPrefix 0 0 ts = length ts \<and>
      sum_list (map braceDelta ts) = 0 \<and> sum_list (map parenDelta ts) = 0)"

definition balancedRound :: "'x state \<Rightarrow> 'x state \<Rightarrow> bool" where
  "balancedRound s s1 =
     (tokens s1 = tokens s \<and> tokenIndex s < tokenIndex s1 \<and>
      tokenIndex s1 \<le> length (tokens s) \<and>
      balancedRun (map type (between (tokens s) (tokenIndex s) (tokenIndex s1))))"

fun balancedRounds :: "'x state list \<Rightarrow> bool" where
  "balancedRounds (s # s1 # ss) = (balancedRound s s1 \<and> balancedRounds (s1 # ss))"
| "balancedRounds ss = True"

text \<open>
  An element name that is a single identifier: a JSX name at the cursor, followed by what
  ends the name (the name of the first prop, the brace of a spread prop, or the end of the
  tag).
\<close>

definition singleIdentifierName :: "'x state \<Rightarrow> bool" where
  "singleIdentifierName s =
     (matches1 s tt_jsxName \<and>
      (matchesAtIndex s (currentIndex s) [tt_jsxName, tt_jsxName] \<or>
       matchesAtIndex s (currentIndex s + 1) [tt_braceL] \<or>
       matchesAtIndex s (currentIndex s + 1) [tt_jsxTagEnd] \<or>
       matchesAtIndex s (currentIndex s + 1) [tt_slash, tt_jsxTagEnd]))"

text \<open>The error of the constructor.\<close>

definition configError :: error where
  "configError =
     Error ''The TypeScript transform without the import transform is not yet supported.''"



section \<open>Basic facts\<close>

lemma matches1_iff:
  "matches1 s t = (tokenIndex s < length (tokens s) \<and> type (tokens s ! tokenIndex s) = t)"
  by (auto simp: matches1_def matchesAtIndex_def take_Suc_conv_app_nth hd_drop_conv_nth
      Suc_le_eq)

lemma andThen_ret [simp]: "andThen (ret x) f = f x"
  by (simp add: andThen_def ret_def)

lemma andThen_raise [simp]: "andThen (raise e) f = raise e"
  by (simp add: andThen_def raise_def)

lemma andThen_None [simp]: "andThen None f = None"
  by (simp add: andThen_def)

lemma andThen_eq_ret:
  "(andThen m f = ret y) = (\<exists>x. m = ret x \<and> f x = ret y)"
  by (auto simp: andThen_def ret_def split: option.splits sum.splits)

lemma matchesAtIndex_iff:
  "matchesAtIndex s i ls =
     (i + length ls \<le> length (tokens s) \<and> (\<forall>k < length ls. type (tokens s ! (i + k)) = ls ! k))"
  by (auto simp: matchesAtIndex_def list_eq_iff_nth_eq)

lemma matchesAtIndex_1:
  "matchesAtIndex s i [t1] = (i < length (tokens s) \<and> type (tokens s ! i) = t1)"
  by (auto simp: matchesAtIndex_iff)

lemma matchesAtIndex_2:
  "matchesAtIndex s i [t1, t2] =
     (i + 1 < length (tokens s) \<and> type (tokens s ! i) = t1 \<and> type (tokens s ! (i + 1)) = t2)"
  by (auto simp: matchesAtIndex_iff All_less_Suc)

lemma matches2_iff:
  "matches2 s t1 t2 =
     (tokenIndex s + 1 < length (tokens s) \<and> type (tokens s ! tokenIndex s) = t1 \<and>
      type (tokens s ! (tokenIndex s + 1)) = t2)"
  by (simp add: matches2_def matchesAtIndex_2)

lemma consumedEnd_advance:
  "tokenIndex s < length (tokens s) \<Longrightarrow>
   consumedEnd (s\<lparr>resultCode := r, tokenIndex := Suc (tokenIndex s)\<rparr>) =
     end' (tokens s ! tokenIndex s)"
  by (auto simp: consumedEnd_def)

lemma replaceToken_in_range:
  "tokenIndex s < length (tokens s) \<Longrightarrow>
   replaceToken newCode s =
     ret (s\<lparr>resultCode := resultCode s @ previousWhitespace s @ newCode,
            tokenIndex := tokenIndex s + 1\<rparr>)"
  by (simp add: replaceToken_def)

lemma previousWhitespace_in_range:
  "tokenIndex s < length (tokens s) \<Longrightarrow>
   previousWhitespace s = slice (code s) (consumedEnd s) (start (tokens s ! tokenIndex s))"
  by (simp add: previousWhitespace_def currentToken_def)

lemma list_update_last:
  "xs \<noteq> [] \<Longrightarrow> xs[length xs - Suc 0 := v] = butlast xs @ [v]"
  by (cases xs rule: rev_cases) auto

text \<open>The fields of the example values.\<close>

lemma newToken_fields [simp]:
  "type (newToken t a b) = t" "start (newToken t a b) = a" "end' (newToken t a b) = b"
  "contextId (newToken t a b) = None" "identifierRole (newToken t a b) = None"
  "isType (newToken t a b) = False"
  by (simp_all add: newToken_def)

lemma initialState_fields [simp]:
  "code (initialState c ts x) = c" "tokens (initialState c ts x) = ts"
  "resultCode (initialState c ts x) = []" "tokenIndex (initialState c ts x) = 0"
  "generatedVariables (initialState c ts x) = []" "lastLineNumber (initialState c ts x) = 1"
  "lastIndex (initialState c ts x) = 0" "filenameVarName (initialState c ts x) = None"
  "ext (initialState c ts x) = x"
  by (simp_all add: initialState_def)

lemma plainEnv_fields [simp]:
  "XHTMLEntities plainEnv = (\<lambda>n. if n = str ''amp'' then Some (str ''&'') else None)"
  "unicodeToLowerCase plainEnv = (\<lambda>c. [c])"
  "filePath plainEnv = None"
  "claimFreeName plainEnv = (\<lambda>n x. (n, x))"
  "getIdentifierReplacement plainEnv = (\<lambda>n x. None)"
  "removeInitialToken plainEnv = replaceToken []"
  "removeToken plainEnv = replaceToken []"
  "getClassInfo plainEnv = (\<lambda>root s. raise (Error ''no class''))"
  "Transformer_process plainEnv = (\<lambda>t root s. ret (False, s))"
  "Transformer_getPrefixCode plainEnv = (\<lambda>t s. [])"
  "Transformer_getSuffixCode plainEnv = (\<lambda>t s. [])"
  by (simp_all add: plainEnv_def)

lemma copyingRoot_fields [simp]:
  "cb_processToken copyingRoot = copyToken"
  "cb_processBalancedCode copyingRoot = (\<lambda>s. None)"
  "cb_processClass copyingRoot = (\<lambda>s. None)"
  by (simp_all add: copyingRoot_def)

lemma emptyInterpolationExample_fields [simp]:
  "tokens emptyInterpolationExample =
     [newToken tt_jsxTagStart 0 1, newToken tt_jsxName 1 2, newToken tt_jsxTagEnd 2 3,
      newToken tt_braceL 3 4, newToken tt_braceR 5 6, newToken tt_jsxTagStart 6 7,
      newToken tt_slash 7 8, newToken tt_jsxName 8 9, newToken tt_jsxTagEnd 9 10]"
  "tokenIndex emptyInterpolationExample = 3"
  "code emptyInterpolationExample = str ''<a>{ }</a>''"
  "resultCode emptyInterpolationExample = str ''f(a, {}''"
  by (simp_all add: emptyInterpolationExample_def)

lemma tagExample_fields [simp]:
  "tokens (tagExample name) =
     [newToken tt_jsxTagStart 0 1, newToken tt_jsxName 1 (1 + length name),
      newToken tt_jsxTagEnd (1 + length name) (2 + length name)]"
  "tokenIndex (tagExample name) = 1"
  "code (tagExample name) = str ''<'' @ str name @ str ''>''"
  "resultCode (tagExample name) = str ''React.createElement(''"
  by (simp_all add: tagExample_def)

lemma ret_eq [simp]: "(ret x = ret y) = (x = y)"
  by (simp add: ret_def)

lemma raise_neq_ret [simp]: "raise e \<noteq> ret x" "ret x \<noteq> raise e" "None \<noteq> ret x" "ret x \<noteq> None"
  by (simp_all add: ret_def raise_def)

lemma replaceToken_result:
  "replaceToken c s = ret s' \<Longrightarrow>
   resultCode s' = resultCode s @ previousWhitespace s @ c \<and> tokenIndex s' = tokenIndex s + 1 \<and>
   ext s' = ext s \<and> tokens s' = tokens s \<and> code s' = code s \<and>
   generatedVariables s' = generatedVariables s"
  by (auto simp: replaceToken_def split: if_splits)

lemma copyToken_result:
  "copyToken s = ret s' \<Longrightarrow>
   \<exists>t. currentToken s = Some t \<and>
     resultCode s' = resultCode s @ previousWhitespace s @ rawCodeForToken s t \<and>
     tokenIndex s' = tokenIndex s + 1 \<and> ext s' = ext s \<and> tokens s' = tokens s \<and>
     code s' = code s \<and> generatedVariables s' = generatedVariables s"
  by (auto simp: copyToken_def split: option.splits dest: replaceToken_result)

lemma copyExpectedToken_result:
  "copyExpectedToken label s = ret s' \<Longrightarrow>
   \<exists>t. currentToken s = Some t \<and> type t = label \<and>
     resultCode s' = resultCode s @ previousWhitespace s @ rawCodeForToken s t \<and>
     tokenIndex s' = tokenIndex s + 1 \<and> ext s' = ext s \<and> tokens s' = tokens s \<and>
     code s' = code s \<and> generatedVariables s' = generatedVariables s"
proof -
  assume a: "copyExpectedToken label s = ret s'"
  then have m: "matches1 s label" and c: "copyToken s = ret s'"
    by (auto simp: copyExpectedToken_def split: if_splits)
  from copyToken_result [OF c] m show ?thesis
    by (auto simp: matches1_iff currentToken_def)
qed

lemma classFieldExample_fields [simp]:
  "tokens classFieldExample =
        [(newToken tt_class 0 5)\<lparr>contextId := Some 1\<rparr>, newToken tt_name 6 7,
         newToken (tt_other 0) 8 15, newToken tt_name 16 17,
         (newToken tt_braceL 18 19)\<lparr>contextId := Some 1\<rparr>, newToken tt_name 20 21,
         newToken tt_eq 22 23, newToken tt_num 24 25, newToken (tt_other 1) 25 26,
         (newToken tt_braceR 27 28)\<lparr>contextId := Some 1\<rparr>]"
  "tokenIndex classFieldExample = 4"
  "code classFieldExample = str ''class A extends B { x = 1; }''"
  "resultCode classFieldExample = str ''class A extends B''"
  "ext classFieldExample = ()"
  by (simp_all add: classFieldExample_def)

lemma classEnv_fields [simp]:
  "getClassInfo (classEnv info) = (\<lambda>root s. ret (info, s))"
  "claimFreeName (classEnv info) = (\<lambda>n x. (n, x))"
  "removeInitialToken (classEnv info) = replaceToken []"
  "removeToken (classEnv info) = replaceToken []"
  "Transformer_process (classEnv info) = (\<lambda>t root s. ret (False, s))"
  by (simp_all add: classEnv_def)

lemma classExpressionExample_fields [simp]:
  "tokens classExpressionExample =
        [newToken tt_name 0 1, newToken tt_eq 2 3,
         (newToken tt_class 4 9)\<lparr>contextId := Some 1\<rparr>,
         (newToken tt_braceL 10 11)\<lparr>contextId := Some 1\<rparr>,
         newToken (tt_other 2) 12 18, newToken tt_name 19 20, newToken tt_eq 21 22,
         newToken tt_num 23 24, (newToken tt_braceR 25 26)\<lparr>contextId := Some 1\<rparr>]"
  "tokenIndex classExpressionExample = 2"
  "code classExpressionExample = str ''x = class { static y = 1 }''"
  "resultCode classExpressionExample = str ''x =''"
  "ext classExpressionExample = ()"
  by (simp_all add: classExpressionExample_def)

lemma classDeclarationExample_fields [simp]:
  "tokens classDeclarationExample =
        [(newToken tt_class 0 5)\<lparr>contextId := Some 1\<rparr>, newToken tt_name 6 7,
         (newToken tt_braceL 8 9)\<lparr>contextId := Some 1\<rparr>,
         newToken (tt_other 2) 10 16, newToken tt_name 17 18, newToken tt_eq 19 20,
         newToken tt_num 21 22, (newToken tt_braceR 23 24)\<lparr>contextId := Some 1\<rparr>]"
  "tokenIndex classDeclarationExample = 0"
  "code classDeclarationExample = str ''class A { static y = 1 }''"
  "resultCode classDeclarationExample = []"
  "ext classDeclarationExample = ()"
  by (simp_all add: classDeclarationExample_def)

lemma textChildExample_fields [simp]:
  "tokens textChildExample =
        [newToken tt_jsxTagStart 0 1, newToken tt_jsxName 1 2, newToken tt_jsxTagEnd 2 3,
         newToken tt_jsxText 3 9, newToken tt_jsxTagStart 9 10, newToken tt_slash 10 11,
         newToken tt_jsxName 11 12, newToken tt_jsxTagEnd 12 13]"
  "tokenIndex textChildExample = 3"
  "code textChildExample = str ''<a>a b'' @ [10] @ str ''  </a>''"
  "resultCode textChildExample = str ''f(a, {}''"
  by (simp_all add: textChildExample_def)

lemma importEnv_fields [simp]:
  "unicodeToLowerCase importEnv = (\<lambda>c. [c])"
  "Transformer_process importEnv =
          (\<lambda>t root s.
             case currentToken s of
               None \<Rightarrow> ret (False, s)
             | Some tok \<Rightarrow>
                 if isImportTransformer t \<and> identifierRole tok = Some Access then
                   (case fooBinding (rawCodeForToken s tok) of
                      None \<Rightarrow> ret (False, s)
                    | Some r \<Rightarrow> andThen (replaceToken r s) (\<lambda>s'. ret (True, s')))
                 else ret (False, s))"
  by (simp_all add: importEnv_def)

lemma fooTagExample_fields [simp]:
  "tokens fooTagExample =
     [newToken tt_jsxTagStart 0 1, (newToken tt_jsxName 1 4)\<lparr>identifierRole := Some Access\<rparr>,
      newToken tt_jsxTagEnd 4 5]"
  "tokenIndex fooTagExample = 1"
  "code fooTagExample = str ''<Foo>''"
  "resultCode fooTagExample = str ''React.createElement(''"
  by (simp_all add: fooTagExample_def str_def)

lemma propExample_fields [simp]:
  "tokens propExample =
       [newToken tt_jsxTagStart 0 1, newToken tt_jsxName 1 2, newToken tt_jsxName 3 4,
        newToken tt_eq 4 5, newToken tt_braceL 5 6, newToken tt_name 6 7,
        newToken tt_braceR 7 8, newToken tt_slash 8 9, newToken tt_jsxTagEnd 9 10,
        newToken tt_parenR 10 11]"
  "tokenIndex propExample = 0"
  by (simp_all add: propExample_def)










lemma rawCodeForToken_code:
  "code s' = code s \<Longrightarrow> rawCodeForToken s' t = rawCodeForToken s t"
  by (simp add: rawCodeForToken_def)






lemma JSXTransformer_process_other_token:
  "\<not> matches1 s tt_jsxTagStart \<Longrightarrow> JSXTransformer_process fuel env root s = ret (False, s)"
  by (simp add: JSXTransformer_process_def)

lemma processToken_transformers_unclaimed:
  "\<not> matches1 s tt_jsxTagStart \<Longrightarrow>
   \<forall>t \<in> set transformers. t \<noteq> JSXTransformer \<longrightarrow> Transformer_process env t root s = ret (False, s) \<Longrightarrow>
   processToken_transformers transformers fuel env root s = copyToken s"
  by (induction transformers)
    (auto simp: process_def JSXTransformer_process_other_token)

lemma processToken_unclaimed:
  "\<not> matches1 s tt_class \<Longrightarrow> \<not> matches1 s tt_jsxTagStart \<Longrightarrow>
   \<forall>t \<in> set transformers. t \<noteq> JSXTransformer \<longrightarrow> Transformer_process env t root s = ret (False, s) \<Longrightarrow>
   processToken fuel env transformers root s = copyToken s"
  by (simp add: processToken_def processToken_transformers_unclaimed)



section \<open>Entity decoding (claim C1)\<close>

lemma processEntity_loop_closed:
  "processEntity_loop tbl t i count s =
     (let w = take (10 - count) (drop i t); name = takeWhile (\<lambda>c. c \<noteq> 59) w in
      if 59 \<in> set w then
        (case resolveEntity tbl (s @ name) of
           Inl e \<Rightarrow> Inl e
         | Inr entity \<Rightarrow> Inr (entity, i + length name + 1))
      else Inr (None, i + length w))"
proof (induction tbl t i count s rule: processEntity_loop.induct)
  case (1 tbl t i count s)
  show ?case
  proof (cases "i < length t \<and> count < 10")
    case False
    then show ?thesis
      by (auto simp: processEntity_loop.simps [of tbl t i count s])
  next
    case guard: True
    then obtain n where n: "10 - count = Suc n" "9 - count = n"
      by (cases "10 - count") auto
    from guard have d: "drop i t = t ! i # drop (i + 1) t"
      by (simp add: Cons_nth_drop_Suc)
    show ?thesis
    proof (cases "t ! i = 59")
      case True
      with guard show ?thesis
        by (simp add: processEntity_loop.simps [of tbl t i count s] n d Let_def split: sum.splits)
    next
      case False
      from "1.IH" [OF guard refl False] guard False show ?thesis
        by (simp add: processEntity_loop.simps [of tbl t i count s] n d Let_def split: sum.splits)
    qed
  qed
qed

lemma processEntity_closed:
  "processEntity tbl t i =
     (let w = take 10 (drop i t); name = takeWhile (\<lambda>c. c \<noteq> 59) w in
      if 59 \<in> set w then
        (case resolveEntity tbl name of
           Inl e \<Rightarrow> Inl e
         | Inr None \<Rightarrow> Inr ([38], i)
         | Inr (Some ent) \<Rightarrow> if ent = [] then Inr ([38], i) else Inr (ent, i + length name + 1))
      else Inr ([38], i))"
  by (simp add: processEntity_def processEntity_loop_closed Let_def split: sum.splits option.splits)

lemma formatJSXTextLiteral_unresolved_step:
  assumes "i < length t" and "t ! i = 38"
    and "processEntity tbl t (i + 1) = Inr ([38], i + 1)"
  shows "formatJSXTextLiteral_loop tbl t i st =
     formatJSXTextLiteral_loop tbl t (i + 1)
       \<lparr>result = (if seenNonWhitespace st \<and> isInInitialLineWhitespace st
                  then result st @ [32] else result st) @ whitespace st @ [38],
        whitespace = [], isInInitialLineWhitespace = False, seenNonWhitespace = True\<rparr>"
  using assms
  by (cases st) (simp add: formatJSXTextLiteral_loop.simps [of tbl t i] formatJSXTextLiteral_body_def)



lemma formatJSXTextLiteral_body_plain:
  assumes "i < length t"
    and "t ! i \<noteq> 32" "t ! i \<noteq> 9" "t ! i \<noteq> 13" "t ! i \<noteq> 10"
    and "t ! i = 38 \<longrightarrow> processEntity tbl t (i + 1) = Inr ([38], i + 1)"
    and "whitespace st = []" and "\<not> isInInitialLineWhitespace st"
  shows "formatJSXTextLiteral_body tbl t i st =
     Inr (i, st\<lparr>result := result st @ [t ! i], whitespace := [],
               seenNonWhitespace := True, isInInitialLineWhitespace := False\<rparr>)"
  using assms by (cases st) (auto simp: formatJSXTextLiteral_body_def Let_def)

lemma formatJSXTextLiteral_loop_plain:
  "\<forall>j < length t. t ! j \<noteq> 32 \<and> t ! j \<noteq> 9 \<and> t ! j \<noteq> 13 \<and> t ! j \<noteq> 10 \<Longrightarrow>
   \<forall>j < length t. t ! j = 38 \<longrightarrow> processEntity tbl t (j + 1) = Inr ([38], j + 1) \<Longrightarrow>
   whitespace st = [] \<Longrightarrow> \<not> isInInitialLineWhitespace st \<Longrightarrow>
     \<exists>st'. formatJSXTextLiteral_loop tbl t i st = Inr st' \<and>
           result st' = result st @ drop i t \<and> whitespace st' = [] \<and>
           \<not> isInInitialLineWhitespace st'"
proof (induction tbl t i st rule: formatJSXTextLiteral_loop.induct)
  case (1 tbl t i st)
  show ?case
  proof (cases "i < length t")
    case False
    with "1.prems" show ?thesis
      by (simp add: formatJSXTextLiteral_loop.simps [of tbl t i st])
  next
    case True
    let ?st' = "st\<lparr>result := result st @ [t ! i], whitespace := [],
               seenNonWhitespace := True, isInInitialLineWhitespace := False\<rparr>"
    from True "1.prems" have body: "formatJSXTextLiteral_body tbl t i st = Inr (i, ?st')"
      by (intro formatJSXTextLiteral_body_plain) auto
    have "\<exists>st''. formatJSXTextLiteral_loop tbl t (i + 1) ?st' = Inr st'' \<and>
           result st'' = result ?st' @ drop (i + 1) t \<and> whitespace st'' = [] \<and>
           \<not> isInInitialLineWhitespace st''"
      by (rule "1.IH" [OF True body refl]) (use "1.prems" in simp_all)
    then obtain st'' where "formatJSXTextLiteral_loop tbl t (i + 1) ?st' = Inr st''"
      and "result st'' = result ?st' @ drop (i + 1) t" and "whitespace st'' = []"
      and "\<not> isInInitialLineWhitespace st''"
      by auto
    with True body show ?thesis
      by (simp add: formatJSXTextLiteral_loop.simps [of tbl t i st] Cons_nth_drop_Suc)
  qed
qed

lemma formatJSXTextLiteral_plain:
  assumes "\<forall>j < length t. t ! j \<noteq> 32 \<and> t ! j \<noteq> 9 \<and> t ! j \<noteq> 13 \<and> t ! j \<noteq> 10"
    and "\<forall>j < length t. t ! j = 38 \<longrightarrow> processEntity tbl t (j + 1) = Inr ([38], j + 1)"
  shows "formatJSXTextLiteral tbl t = Inr (JSON_stringify t)"
proof -
  let ?st = "\<lparr>result = [], whitespace = [], isInInitialLineWhitespace = False,
              seenNonWhitespace = False\<rparr>"
  from formatJSXTextLiteral_loop_plain [OF assms, of ?st 0]
  obtain st' where "formatJSXTextLiteral_loop tbl t 0 ?st = Inr st'"
    and "result st' = t" and "whitespace st' = []" and "\<not> isInInitialLineWhitespace st'"
    by auto
  then show ?thesis by (simp add: formatJSXTextLiteral_def)
qed

text \<open>
  Claim C1, as amended. A character reference is decoded from at most the 10 characters
  that follow the ampersand: when a semicolon stands among them and the text before it
  resolves (decimal, hexadecimal or a name of the table), the entity is emitted and scanning
  resumes after the semicolon. When the reference does not resolve within that budget, the
  output gets a literal ampersand and scanning resumes immediately after the ampersand: the
  characters the lookahead examined are scanned again as ordinary text, so they are
  reproduced in the string literal. In particular a run without whitespace in which no
  reference resolves is reproduced whole.
\<close>

theorem processEntity_lookahead:
  "processEntity tbl t k =
     (let w = take 10 (drop k t); name = takeWhile (\<lambda>c. c \<noteq> 59) w in
      if 59 \<in> set w then
        (case resolveEntity tbl name of
           Inl e \<Rightarrow> Inl e
         | Inr None \<Rightarrow> Inr ([38], k)
         | Inr (Some ent) \<Rightarrow> if ent = [] then Inr ([38], k) else Inr (ent, k + length name + 1))
      else Inr ([38], k))
   \<and> (i < length t \<and> t ! i = 38 \<and> processEntity tbl t (i + 1) = Inr ([38], i + 1) \<longrightarrow>
        formatJSXTextLiteral_loop tbl t i st =
        formatJSXTextLiteral_loop tbl t (i + 1)
          \<lparr>result = (if seenNonWhitespace st \<and> isInInitialLineWhitespace st
                     then result st @ [32] else result st) @ whitespace st @ [38],
           whitespace = [], isInInitialLineWhitespace = False, seenNonWhitespace = True\<rparr>)
   \<and> ((\<forall>j < length t. t ! j \<noteq> 32 \<and> t ! j \<noteq> 9 \<and> t ! j \<noteq> 13 \<and> t ! j \<noteq> 10) \<and>
       (\<forall>j < length t. t ! j = 38 \<longrightarrow> processEntity tbl t (j + 1) = Inr ([38], j + 1)) \<longrightarrow>
        formatJSXTextLiteral tbl t = Inr (JSON_stringify t))"
  using processEntity_closed [of tbl t k] formatJSXTextLiteral_unresolved_step [of i t tbl st]
    formatJSXTextLiteral_plain [of t tbl]
  by blast

lemma zzz_unresolved:
  "\<forall>j < length (str ''&zzz;''). str ''&zzz;'' ! j = 38 \<longrightarrow>
     processEntity (\<lambda>_. None) (str ''&zzz;'') (j + 1) = Inr ([38], j + 1)"
  by (simp add: str_def processEntity_closed resolveEntity_def eval_nat_numeral All_less_Suc)

lemma zzz_plain:
  "\<forall>j < length (str ''&zzz;''). str ''&zzz;'' ! j \<noteq> 32 \<and> str ''&zzz;'' ! j \<noteq> 9
      \<and> str ''&zzz;'' ! j \<noteq> 13 \<and> str ''&zzz;'' ! j \<noteq> 10"
  by (simp add: str_def eval_nat_numeral All_less_Suc)

theorem processEntity_lookahead_witness:
  "processEntity (\<lambda>_. None) (str ''&zzz;'') 1 = Inr ([38], 1) \<and>
   formatJSXTextLiteral_loop (\<lambda>_. None) (str ''&zzz;'') 0
      \<lparr>result = [], whitespace = [], isInInitialLineWhitespace = False,
       seenNonWhitespace = False\<rparr> =
   formatJSXTextLiteral_loop (\<lambda>_. None) (str ''&zzz;'') 1
      \<lparr>result = [38], whitespace = [], isInInitialLineWhitespace = False,
       seenNonWhitespace = True\<rparr> \<and>
   formatJSXTextLiteral (\<lambda>_. None) (str ''&zzz;'') = Inr (JSON_stringify (str ''&zzz;''))"
proof -
  have u: "processEntity (\<lambda>_. None) (str ''&zzz;'') (0 + 1) = Inr ([38], 0 + 1)"
    by (simp add: str_def processEntity_closed resolveEntity_def)
  have h: "0 < length (str ''&zzz;'') \<and> str ''&zzz;'' ! 0 = 38"
    by (simp add: str_def)
  from processEntity_lookahead [of "\<lambda>_. None" "str ''&zzz;''" 1 0
      "\<lparr>result = [], whitespace = [], isInInitialLineWhitespace = False,
        seenNonWhitespace = False\<rparr>"] u h zzz_unresolved zzz_plain
  show ?thesis by simp
qed

theorem formatJSXTextLiteral_unresolved_counterexample:
  "processEntity (\<lambda>_. None) (str ''&zzz;'') 1 = Inr (str ''&'', 1) \<and>
   formatJSXTextLiteral (\<lambda>_. None) (str ''&zzz;'') = Inr ([34] @ str ''&zzz;'' @ [34]) \<and>
   formatJSXTextLiteral (\<lambda>_. None) (str ''&zzz;'') \<noteq> Inr ([34] @ str ''&'' @ [34])"
  by (simp add: processEntity_closed str_def resolveEntity_def formatJSXTextLiteral_def
    formatJSXTextLiteral_loop.simps formatJSXTextLiteral_body_def JSON_stringify_def quoteUnit_def
    isHighSurrogate_def isLowSurrogate_def)

section \<open>The balanced-range walk (claim C2)\<close>

lemma processBalancedCode_loop_step:
  "processBalancedCode_loop (Suc fuel) root b p s =
     (if isAtEnd s \<or> (matches1 s tt_braceR \<and> b = 0) \<or> (matches1 s tt_parenR \<and> p = 0)
      then ret s
      else andThen (cb_processToken root s)
             (processBalancedCode_loop fuel root
                (if matches1 s tt_braceL \<or> matches1 s tt_dollarBraceL then b + 1
                 else if matches1 s tt_braceR then b - 1 else b)
                (if matches1 s tt_parenL then p + 1
                 else if matches1 s tt_parenR then p - 1 else p)))"
  by (auto simp: matches1_iff)

declare processBalancedCode_loop.simps [simp del]

lemma walkRounds_Nil:
  "walkRounds b p f s [] =
     (isAtEnd s \<or> b + braceDelta (cursorType s) < 0 \<or> p + parenDelta (cursorType s) < 0)"
  by (auto simp: walkRounds_def)

lemma walkRounds_Cons:
  "walkRounds b p f s (s1 # ss) =
     (\<not> isAtEnd s \<and> 0 \<le> b + braceDelta (cursorType s) \<and> 0 \<le> p + parenDelta (cursorType s) \<and>
      f s = ret s1 \<and>
      walkRounds (b + braceDelta (cursorType s)) (p + parenDelta (cursorType s)) f s1 ss)"
  by (auto simp: walkRounds_def)

lemma processBalancedCode_loop_rounds:
  "(processBalancedCode_loop fuel root b p s = ret s') =
     (\<exists>ss. length ss < fuel \<and> walkRounds (int b) (int p) (cb_processToken root) s ss \<and>
           last (s # ss) = s')"
proof (induction fuel arbitrary: b p s)
  case 0
  then show ?case by (simp add: processBalancedCode_loop.simps)
next
  case (Suc fuel)
  define t where "t = cursorType s"
  have m: "matches1 s x = (t = x)" if "\<not> isAtEnd s" for x
    using that by (simp add: matches1_iff t_def cursorType_def isAtEnd_def)
  define b' where "b' = (if t = tt_braceL \<or> t = tt_dollarBraceL then b + 1
                         else if t = tt_braceR then b - 1 else b)"
  define p' where "p' = (if t = tt_parenL then p + 1 else if t = tt_parenR then p - 1 else p)"
  show ?case
  proof (cases "isAtEnd s \<or> (t = tt_braceR \<and> b = 0) \<or> (t = tt_parenR \<and> p = 0)")
    case True
    then have stop: "isAtEnd s \<or> int b + braceDelta t < 0 \<or> int p + parenDelta t < 0"
      by (auto simp: braceDelta_def parenDelta_def)
    from True have l: "processBalancedCode_loop (Suc fuel) root b p s = ret s"
      by (auto simp: processBalancedCode_loop_step m)
    have r: "(\<exists>ss. length ss < Suc fuel \<and>
        walkRounds (int b) (int p) (cb_processToken root) s ss \<and> last (s # ss) = s') =
        (s = s')"
    proof
      assume "\<exists>ss. length ss < Suc fuel \<and>
        walkRounds (int b) (int p) (cb_processToken root) s ss \<and> last (s # ss) = s'"
      then obtain ss where w: "walkRounds (int b) (int p) (cb_processToken root) s ss"
        and e: "last (s # ss) = s'"
        by blast
      show "s = s'"
      proof (cases ss)
        case Nil
        with e show ?thesis by simp
      next
        case (Cons s1 ss1)
        with w stop show ?thesis
          by (auto simp: walkRounds_Cons t_def)
      qed
    next
      assume "s = s'"
      with stop have "walkRounds (int b) (int p) (cb_processToken root) s [] \<and>
          last [s] = s'"
        by (simp add: walkRounds_Nil t_def)
      then show "\<exists>ss. length ss < Suc fuel \<and>
        walkRounds (int b) (int p) (cb_processToken root) s ss \<and> last (s # ss) = s'"
        by (intro exI [of _ "[]"]) auto
    qed
    from l r show ?thesis by auto
  next
    case False
    then have ne: "\<not> isAtEnd s" and go: "0 \<le> int b + braceDelta t" "0 \<le> int p + parenDelta t"
      and db: "int b' = int b + braceDelta t" and dp: "int p' = int p + parenDelta t"
      by (auto simp: b'_def p'_def braceDelta_def parenDelta_def)
    from False have l: "processBalancedCode_loop (Suc fuel) root b p s =
        andThen (cb_processToken root s) (processBalancedCode_loop fuel root b' p')"
      by (auto simp: processBalancedCode_loop_step m b'_def p'_def)
    have "(processBalancedCode_loop (Suc fuel) root b p s = ret s') =
        (\<exists>s1. cb_processToken root s = ret s1 \<and>
           (\<exists>ss. length ss < fuel \<and>
              walkRounds (int b') (int p') (cb_processToken root) s1 ss \<and>
              last (s1 # ss) = s'))"
      by (simp add: l andThen_eq_ret Suc.IH)
    also have "\<dots> = (\<exists>ss. length ss < Suc fuel \<and>
        walkRounds (int b) (int p) (cb_processToken root) s ss \<and> last (s # ss) = s')"
    proof
      assume "\<exists>s1. cb_processToken root s = ret s1 \<and>
           (\<exists>ss. length ss < fuel \<and>
              walkRounds (int b') (int p') (cb_processToken root) s1 ss \<and>
              last (s1 # ss) = s')"
      then obtain s1 ss where "cb_processToken root s = ret s1" "length ss < fuel"
        "walkRounds (int b') (int p') (cb_processToken root) s1 ss" "last (s1 # ss) = s'"
        by blast
      with ne go db dp show "\<exists>ss. length ss < Suc fuel \<and>
        walkRounds (int b) (int p) (cb_processToken root) s ss \<and> last (s # ss) = s'"
        by (intro exI [of _ "s1 # ss"]) (simp add: walkRounds_Cons t_def)
    next
      assume "\<exists>ss. length ss < Suc fuel \<and>
        walkRounds (int b) (int p) (cb_processToken root) s ss \<and> last (s # ss) = s'"
      then obtain ss where n: "length ss < Suc fuel"
        and w: "walkRounds (int b) (int p) (cb_processToken root) s ss"
        and e: "last (s # ss) = s'"
        by blast
      show "\<exists>s1. cb_processToken root s = ret s1 \<and>
           (\<exists>ss. length ss < fuel \<and>
              walkRounds (int b') (int p') (cb_processToken root) s1 ss \<and>
              last (s1 # ss) = s')"
      proof (cases ss)
        case Nil
        with w ne go show ?thesis
          by (simp add: walkRounds_Nil t_def)
      next
        case (Cons s1 ss1)
        from w have 1: "cb_processToken root s = ret s1"
          and 2: "walkRounds (int b + braceDelta t) (int p + parenDelta t)
                    (cb_processToken root) s1 ss1"
          unfolding Cons walkRounds_Cons t_def by blast+
        from 2 have 3: "walkRounds (int b') (int p') (cb_processToken root) s1 ss1"
          unfolding db dp .
        from n e have "length ss1 < fuel" "last (s1 # ss1) = s'"
          unfolding Cons by simp_all
        with 1 3 show ?thesis by blast
      qed
    qed
    finally show ?thesis .
  qed
qed

lemma balancedPrefix_run:
  "balancedPrefix b0 p0 seg = length seg \<Longrightarrow> b0 \<le> b \<Longrightarrow> p0 \<le> p \<Longrightarrow>
   balancedPrefix b p (seg @ rest) =
     length seg + balancedPrefix (b + sum_list (map braceDelta seg))
                    (p + sum_list (map parenDelta seg)) rest"
proof (induction seg arbitrary: b0 p0 b p)
  case Nil
  then show ?case by simp
next
  case (Cons t seg)
  from Cons.prems(1) have ok: "\<not> (b0 + braceDelta t < 0 \<or> p0 + parenDelta t < 0)"
    and r: "balancedPrefix (b0 + braceDelta t) (p0 + parenDelta t) seg = length seg"
    by (auto split: if_splits)
  from ok Cons.prems(2,3) have ok': "\<not> (b + braceDelta t < 0 \<or> p + parenDelta t < 0)"
    by auto
  from Cons.IH [OF r, of "b + braceDelta t" "p + parenDelta t"] Cons.prems(2,3) ok'
  show ?case
    by (simp add: add.assoc)
qed

lemma drop_between:
  "lo < hi \<Longrightarrow> hi \<le> length xs \<Longrightarrow> drop lo xs = xs ! lo # between xs lo hi @ drop hi xs"
proof -
  assume a: "lo < hi" "hi \<le> length xs"
  then have "drop lo xs = xs ! lo # drop (Suc lo) xs"
    by (simp add: Cons_nth_drop_Suc)
  also have "drop (Suc lo) xs =
      take (hi - Suc lo) (drop (Suc lo) xs) @ drop (hi - Suc lo) (drop (Suc lo) xs)"
    by (rule append_take_drop_id [symmetric])
  also from a have "drop (hi - Suc lo) (drop (Suc lo) xs) = drop hi xs"
    by simp
  finally show ?thesis
    by (simp add: between_def)
qed

lemma walkRounds_position:
  "walkRounds b p f s ss \<Longrightarrow> balancedRounds (s # ss) \<Longrightarrow> 0 \<le> b \<Longrightarrow> 0 \<le> p \<Longrightarrow>
   tokenIndex (last (s # ss)) =
     tokenIndex s + balancedPrefix b p (map type (drop (tokenIndex s) (tokens s)))"
proof (induction ss arbitrary: s b p)
  case Nil
  show ?case
  proof (cases "isAtEnd s")
    case True
    then show ?thesis by (simp add: isAtEnd_def)
  next
    case False
    then have d: "drop (tokenIndex s) (tokens s) =
        tokens s ! tokenIndex s # drop (Suc (tokenIndex s)) (tokens s)"
      by (simp add: isAtEnd_def Cons_nth_drop_Suc)
    from Nil.prems(1) False show ?thesis
      by (auto simp: walkRounds_Nil d cursorType_def)
  qed
next
  case (Cons s1 ss)
  define t where "t = cursorType s"
  from Cons.prems(1) have ne: "\<not> isAtEnd s"
    and go: "0 \<le> b + braceDelta t" "0 \<le> p + parenDelta t"
    and w: "walkRounds (b + braceDelta t) (p + parenDelta t) f s1 ss"
    unfolding walkRounds_Cons t_def by blast+
  from Cons.prems(2) have br: "balancedRound s s1" and brs: "balancedRounds (s1 # ss)"
    by simp_all
  from br have ts: "tokens s1 = tokens s" and lt: "tokenIndex s < tokenIndex s1"
    and le: "tokenIndex s1 \<le> length (tokens s)"
    and run: "balancedRun (map type (between (tokens s) (tokenIndex s) (tokenIndex s1)))"
    by (simp_all add: balancedRound_def)
  let ?seg = "map type (between (tokens s) (tokenIndex s) (tokenIndex s1))"
  let ?rest = "map type (drop (tokenIndex s1) (tokens s))"
  from run have seg: "balancedPrefix 0 0 ?seg = length ?seg"
    "sum_list (map braceDelta ?seg) = 0" "sum_list (map parenDelta ?seg) = 0"
    by (simp_all add: balancedRun_def)
  from lt le have len: "length ?seg = tokenIndex s1 - Suc (tokenIndex s)"
    by (simp add: between_def)
  have d: "map type (drop (tokenIndex s) (tokens s)) = t # ?seg @ ?rest"
    by (simp add: drop_between [OF lt le] t_def cursorType_def)
  from balancedPrefix_run [OF seg(1) go, of ?rest] seg(2,3)
  have "balancedPrefix (b + braceDelta t) (p + parenDelta t) (?seg @ ?rest) =
      length ?seg + balancedPrefix (b + braceDelta t) (p + parenDelta t) ?rest"
    by simp
  with go have "balancedPrefix b p (map type (drop (tokenIndex s) (tokens s))) =
      Suc (length ?seg + balancedPrefix (b + braceDelta t) (p + parenDelta t) ?rest)"
    by (simp add: d)
  moreover from Cons.IH [OF w brs go] ts
  have "tokenIndex (last (s1 # ss)) =
      tokenIndex s1 + balancedPrefix (b + braceDelta t) (p + parenDelta t) ?rest"
    by simp
  ultimately show ?case
    using lt len by simp
qed

text \<open>
  Claim C2. The walk returns a state exactly when there are rounds from the state at entry
  to that state, fewer than the fuel, of this kind: in every round the token at the cursor
  is handed to \<open>processToken\<close> once, which takes the state to the next one; the tokens at
  the cursor of the rounds, an opening brace and the opening brace of a template
  interpolation both counting as a brace, never take the brace depth or the parenthesis
  depth below the level at entry; and the state returned is at the end of the tokens, or
  the token at its cursor is a closing brace or a closing parenthesis that would take its
  depth below that level. One round may consume more than its token (a whole element, a
  whole class). When every round keeps the tokens and consumes its token followed by a
  balanced run of tokens, the state returned stands at the first token, counted from the
  cursor at entry, that would take a depth below the level at entry, or at the end of the
  tokens.
\<close>

theorem processBalancedCode_walk:
  "(processBalancedCode fuel root s = ret s') =
     (\<exists>ss. length ss < fuel \<and> walkRounds 0 0 (cb_processToken root) s ss \<and> last (s # ss) = s')
   \<and> (walkRounds 0 0 (cb_processToken root) s ss \<and> balancedRounds (s # ss) \<longrightarrow>
        tokenIndex (last (s # ss)) =
          tokenIndex s + balancedPrefix 0 0 (map type (drop (tokenIndex s) (tokens s))))"
  using processBalancedCode_loop_rounds [of fuel root 0 0 s s']
    walkRounds_position [of 0 0 "cb_processToken root" s ss]
  by (simp add: processBalancedCode_def)

text \<open>
  The example: the orchestrator of a run with \<open>jsx\<close> rewrites the element in one round,
  which consumes nine tokens, and the walk returns at the closing parenthesis.
\<close>

lemma propExample_processToken:
  "cb_processToken
     (rootTransformer 4 plainEnv
        [NumericSeparatorTransformer, OptionalCatchBindingTransformer, JSXTransformer,
         ReactDisplayNameTransformer])
     propExample =
   ret (propExample
          \<lparr>resultCode := str ''React.createElement('' @ [39] @ str ''a'' @ [39]
             @ str '', { b: c, __self: this, __source: {fileName: _jsxFileName, lineNumber: 1}})'',
           tokenIndex := 9, filenameVarName := Some (str ''_jsxFileName'')\<rparr>)"
  by code_simp

theorem processBalancedCode_walk_witness:
  "processBalancedCode 2
     (rootTransformer 4 plainEnv
        [NumericSeparatorTransformer, OptionalCatchBindingTransformer, JSXTransformer,
         ReactDisplayNameTransformer])
     propExample =
   ret (propExample
          \<lparr>resultCode := str ''React.createElement('' @ [39] @ str ''a'' @ [39]
             @ str '', { b: c, __self: this, __source: {fileName: _jsxFileName, lineNumber: 1}})'',
           tokenIndex := 9, filenameVarName := Some (str ''_jsxFileName'')\<rparr>)
   \<and> balancedPrefix 0 0 (map type (tokens propExample)) = 9"
proof -
  let ?root = "rootTransformer 4 plainEnv
        [NumericSeparatorTransformer, OptionalCatchBindingTransformer, JSXTransformer,
         ReactDisplayNameTransformer]"
  let ?s1 = "propExample
          \<lparr>resultCode := str ''React.createElement('' @ [39] @ str ''a'' @ [39]
             @ str '', { b: c, __self: this, __source: {fileName: _jsxFileName, lineNumber: 1}})'',
           tokenIndex := 9, filenameVarName := Some (str ''_jsxFileName'')\<rparr>"
  have w: "walkRounds 0 0 (cb_processToken ?root) propExample [?s1]"
    by (simp add: walkRounds_def propExample_processToken isAtEnd_def cursorType_def
        braceDelta_def parenDelta_def)
  have b: "balancedRounds [propExample, ?s1]"
    by (simp add: balancedRound_def balancedRun_def between_def braceDelta_def parenDelta_def)
  note t = processBalancedCode_walk [of 2 ?root propExample ?s1 "[?s1]"]
  from w have "\<exists>ss. length ss < 2 \<and> walkRounds 0 0 (cb_processToken ?root) propExample ss \<and>
      last (propExample # ss) = ?s1"
    by (intro exI [of _ "[?s1]"]) simp
  with t [THEN conjunct1] have run: "processBalancedCode 2 ?root propExample = ret ?s1"
    by (rule iffD2)
  from t [THEN conjunct2] w b
  have "balancedPrefix 0 0 (map type (tokens propExample)) = 9"
    by simp
  with run show ?thesis by simp
qed

section \<open>Output assembly (claim C3)\<close>






section \<open>The synthesized constructor (claim C4)\<close>




section \<open>Static initializers (claim C5)\<close>







section \<open>The element name (claim C6)\<close>

lemma processTagIntro_introEnd_single:
  "singleIdentifierName s \<Longrightarrow>
   processTagIntro_introEnd (Suc fuel) s (currentIndex s + 1) = ret (currentIndex s + 1)"
  by (auto simp: singleIdentifierName_def)

lemma toLowerCase_ascii:
  "97 \<le> c \<and> c \<le> 122 \<Longrightarrow> toLowerCase env c = [c]"
  "65 \<le> c \<and> c \<le> 90 \<Longrightarrow> toLowerCase env c \<noteq> [c]"
  by (auto simp: toLowerCase_def)

text \<open>
  Claim C6. For an element name that is a single identifier, \<open>processTagIntro\<close> replaces
  the name token by the name in single quotes when the first character of the name is its
  own lower case, as every small letter \<open>a\<close> to \<open>z\<close> is. When it is not, as for every
  capital letter \<open>A\<close> to \<open>Z\<close>, it hands the token to the orchestrator's \<open>processToken\<close>:
  the orchestrator copies the token unchanged when no transformer claims it, and in every
  case what \<open>processToken\<close> returns after consuming the token is what \<open>processTagIntro\<close>
  returns, so that a name which a transformer claims is rewritten by that transformer.
\<close>

theorem processTagIntro_single_identifier:
  assumes "singleIdentifierName s" and "identifierName s = ret (c # cs)"
  shows "(toLowerCase env c = [c] \<longrightarrow>
           processTagIntro (Suc (Suc fuel)) env root s =
             ret (s\<lparr>resultCode := resultCode s @ previousWhitespace s @ [39] @ c # cs @ [39],
                    tokenIndex := tokenIndex s + 1\<rparr>))
       \<and> (toLowerCase env c \<noteq> [c] \<and>
          (\<forall>t \<in> set transformers. t \<noteq> JSXTransformer \<longrightarrow>
             Transformer_process env t (rootTransformer k env transformers) s = ret (False, s)) \<longrightarrow>
           processTagIntro (Suc (Suc fuel)) env (rootTransformer (Suc k) env transformers) s =
             ret (s\<lparr>resultCode := resultCode s @ previousWhitespace s @ c # cs,
                    tokenIndex := tokenIndex s + 1\<rparr>))
       \<and> (toLowerCase env c \<noteq> [c] \<and> cb_processToken root s = ret s1 \<and>
          tokenIndex s < tokenIndex s1 \<longrightarrow>
           processTagIntro (Suc (Suc fuel)) env root s = ret s1)
       \<and> (97 \<le> c \<and> c \<le> 122 \<longrightarrow> toLowerCase env c = [c])
       \<and> (65 \<le> c \<and> c \<le> 90 \<longrightarrow> toLowerCase env c \<noteq> [c])"
proof -
  from assms(1) have m: "matches1 s tt_jsxName"
    by (simp add: singleIdentifierName_def)
  then have r: "tokenIndex s < length (tokens s)" and ty: "type (tokens s ! tokenIndex s) = tt_jsxName"
    by (simp_all add: matches1_iff)
  from r assms(2) have raw: "rawCodeForToken s (tokens s ! tokenIndex s) = c # cs"
    by (simp add: identifierName_def identifierNameAtIndex_def currentIndex_def ret_def)
  from r raw have copy: "copyToken s =
      ret (s\<lparr>resultCode := resultCode s @ previousWhitespace s @ c # cs,
             tokenIndex := tokenIndex s + 1\<rparr>)"
    by (simp add: copyToken_def currentToken_def replaceToken_def)
  have lower: "processTagIntro (Suc (Suc fuel)) env root s =
             ret (s\<lparr>resultCode := resultCode s @ previousWhitespace s @ [39] @ c # cs @ [39],
                    tokenIndex := tokenIndex s + 1\<rparr>)" if "toLowerCase env c = [c]"
    unfolding processTagIntro_def processTagIntro_introEnd_single [OF assms(1)]
    using that r assms(2)
    by (simp add: startsWithLowerCase_def replaceToken_def currentIndex_def)
  have upper: "processTagIntro (Suc (Suc fuel)) env (rootTransformer (Suc k) env transformers) s =
             ret (s\<lparr>resultCode := resultCode s @ previousWhitespace s @ c # cs,
                    tokenIndex := tokenIndex s + 1\<rparr>)"
    if "toLowerCase env c \<noteq> [c]" and u: "\<forall>t \<in> set transformers. t \<noteq> JSXTransformer \<longrightarrow>
             Transformer_process env t (rootTransformer k env transformers) s = ret (False, s)"
  proof -
    from m ty r have "processToken k env transformers (rootTransformer k env transformers) s =
        copyToken s"
      by (intro processToken_unclaimed u) (simp_all add: matches1_iff)
    then show ?thesis
      unfolding processTagIntro_def processTagIntro_introEnd_single [OF assms(1)]
      using that(1) r assms(2)
      by (simp add: startsWithLowerCase_def currentIndex_def copy)
  qed
  have handed: "processTagIntro (Suc (Suc fuel)) env root s = ret s1"
    if "toLowerCase env c \<noteq> [c]" and "cb_processToken root s = ret s1"
      and "tokenIndex s < tokenIndex s1"
    unfolding processTagIntro_def processTagIntro_introEnd_single [OF assms(1)]
    using that assms(2)
    by (simp add: startsWithLowerCase_def currentIndex_def)
  from lower upper handed toLowerCase_ascii [of c env] show ?thesis by blast
qed

theorem processTagIntro_single_identifier_witness:
  "processTagIntro (Suc (Suc 0)) plainEnv copyingRoot (tagExample ''div'') =
     ret ((tagExample ''div'')
            \<lparr>resultCode := str ''React.createElement('' @ [39] @ str ''div'' @ [39],
             tokenIndex := 2\<rparr>) \<and>
   processTagIntro (Suc (Suc 0)) plainEnv
       (rootTransformer (Suc 0) plainEnv [JSXTransformer, ReactDisplayNameTransformer])
       (tagExample ''Foo'') =
     ret ((tagExample ''Foo'')\<lparr>resultCode := str ''React.createElement(Foo'', tokenIndex := 2\<rparr>)"
proof -
  have single: "singleIdentifierName (tagExample n)" for n
    by (simp add: singleIdentifierName_def matches1_iff matchesAtIndex_1 currentIndex_def)
  have div: "identifierName (tagExample ''div'') = ret (100 # str ''iv'')"
    by (simp add: identifierName_def identifierNameAtIndex_def
        currentIndex_def rawCodeForToken_def slice_def str_def)
  have Foo: "identifierName (tagExample ''Foo'') = ret (70 # str ''oo'')"
    by (simp add: identifierName_def identifierNameAtIndex_def
        currentIndex_def rawCodeForToken_def slice_def str_def)
  have low: "toLowerCase plainEnv 100 = [100]"
    by (simp add: toLowerCase_def)
  have up: "toLowerCase plainEnv 70 \<noteq> [70] \<and>
      (\<forall>t \<in> set [JSXTransformer, ReactDisplayNameTransformer]. t \<noteq> JSXTransformer \<longrightarrow>
      Transformer_process plainEnv t
        (rootTransformer 0 plainEnv [JSXTransformer, ReactDisplayNameTransformer])
        (tagExample ''Foo'') = ret (False, tagExample ''Foo''))"
    by (simp add: toLowerCase_def)
  note A = processTagIntro_single_identifier [OF single div, where fuel = 0 and env = plainEnv
      and root = copyingRoot, THEN conjunct1, THEN mp, OF low]
  note B = processTagIntro_single_identifier [OF single Foo, where fuel = 0 and env = plainEnv
      and transformers = "[JSXTransformer, ReactDisplayNameTransformer]" and k = 0,
      THEN conjunct2, THEN conjunct1, THEN mp, OF up]
  have pw: "previousWhitespace (tagExample n) = []" for n
    by (simp add: previousWhitespace_def currentToken_def consumedEnd_def slice_def)
  from A have A': "processTagIntro (Suc (Suc 0)) plainEnv copyingRoot (tagExample ''div'') =
     ret ((tagExample ''div'')
            \<lparr>resultCode := str ''React.createElement('' @ [39] @ str ''div'' @ [39],
             tokenIndex := Suc (Suc 0)\<rparr>)"
    by (simp add: pw str_def)
  from B have B': "processTagIntro (Suc (Suc 0)) plainEnv
       (rootTransformer (Suc 0) plainEnv [JSXTransformer, ReactDisplayNameTransformer])
       (tagExample ''Foo'') =
     ret ((tagExample ''Foo'')\<lparr>resultCode := str ''React.createElement(Foo'',
             tokenIndex := Suc (Suc 0)\<rparr>)"
    by (simp add: pw str_def)
  show ?thesis
    unfolding numeral_2_eq_2 by (rule conjI [OF A' B'])
qed

text \<open>
  A name bound by an import is not copied unchanged: with the transformers of a run with
  \<open>jsx\<close> and \<open>imports\<close> and the collaborators of a file that imports \<open>Foo\<close>, the name
  token of \<open><Foo>\<close> is replaced by the reference of the binding.
\<close>

theorem processTagIntro_import_bound_counterexample:
  "singleIdentifierName fooTagExample \<and>
   identifierName fooTagExample = ret (str ''Foo'') \<and>
   RootTransformer_constructor [T_jsx, T_imports] =
     Inr [NumericSeparatorTransformer, OptionalCatchBindingTransformer, JSXTransformer,
          ReactDisplayNameTransformer, ImportTransformer False] \<and>
   processTagIntro (Suc (Suc 0)) importEnv
       (rootTransformer (Suc 0) importEnv
          [NumericSeparatorTransformer, OptionalCatchBindingTransformer, JSXTransformer,
           ReactDisplayNameTransformer, ImportTransformer False])
       fooTagExample =
     ret (fooTagExample\<lparr>resultCode := str ''React.createElement(_Foo.default'',
                        tokenIndex := Suc (Suc 0)\<rparr>)"
proof -
  have single: "singleIdentifierName fooTagExample"
    by (simp add: singleIdentifierName_def matches1_iff matchesAtIndex_1 currentIndex_def)
  have name: "identifierName fooTagExample = ret (str ''Foo'')"
    by (simp add: identifierName_def identifierNameAtIndex_def
        currentIndex_def rawCodeForToken_def slice_def str_def)
  have ctor: "RootTransformer_constructor [T_jsx, T_imports] =
     Inr [NumericSeparatorTransformer, OptionalCatchBindingTransformer, JSXTransformer,
          ReactDisplayNameTransformer, ImportTransformer False]"
    by (simp add: RootTransformer_constructor_def)
  have pw: "previousWhitespace fooTagExample = []"
    by (simp add: previousWhitespace_def currentToken_def consumedEnd_def slice_def)
  have tok: "cb_processToken (rootTransformer (Suc 0) importEnv
          [NumericSeparatorTransformer, OptionalCatchBindingTransformer, JSXTransformer,
           ReactDisplayNameTransformer, ImportTransformer False]) fooTagExample =
      ret (fooTagExample\<lparr>resultCode := str ''React.createElement(_Foo.default'',
                        tokenIndex := Suc (Suc 0)\<rparr>)"
    by (simp add: processToken_def process_def JSXTransformer_process_def matches1_iff
        currentToken_def isImportTransformer_def fooBinding_def replaceToken_def pw
        rawCodeForToken_def slice_def str_def)
  have run: "processTagIntro (Suc (Suc 0)) importEnv
       (rootTransformer (Suc 0) importEnv
          [NumericSeparatorTransformer, OptionalCatchBindingTransformer, JSXTransformer,
           ReactDisplayNameTransformer, ImportTransformer False])
       fooTagExample =
     ret (fooTagExample\<lparr>resultCode := str ''React.createElement(_Foo.default'',
                        tokenIndex := Suc (Suc 0)\<rparr>)"
    unfolding processTagIntro_def processTagIntro_introEnd_single [OF single]
    by (simp del: rootTransformer.simps
        add: name startsWithLowerCase_def toLowerCase_def str_def currentIndex_def
          tok [unfolded str_def])
  from single name ctor run show ?thesis by simp
qed
section \<open>The replacement filler (claim C7)\<close>

lemma takeWhile_rev_no_newline:
  "10 \<notin> set cs \<Longrightarrow> takeWhile (\<lambda>c. c \<noteq> 10) (rev cs) = rev cs"
  by (rule takeWhile_eq_all_conv [THEN iffD2]) auto

lemma afterLastNewline_no_newline: "10 \<notin> set cs \<Longrightarrow> afterLastNewline cs = cs"
  by (simp add: afterLastNewline_def takeWhile_rev_no_newline)

lemma afterLastNewline_Cons:
  "afterLastNewline (c # cs) =
     (if 10 \<in> set cs then afterLastNewline cs else if c = 10 then cs else c # cs)"
proof (cases "10 \<in> set cs")
  case True
  then have "takeWhile (\<lambda>c. c \<noteq> 10) (rev cs @ [c]) = takeWhile (\<lambda>c. c \<noteq> 10) (rev cs)"
    by (intro takeWhile_append1 [where x = 10]) auto
  with True show ?thesis by (simp add: afterLastNewline_def)
next
  case False
  then have "takeWhile (\<lambda>c. c \<noteq> 10) (rev cs @ [c]) = rev cs @ takeWhile (\<lambda>c. c \<noteq> 10) [c]"
    by (intro takeWhile_append2) auto
  with False show ?thesis by (simp add: afterLastNewline_def)
qed

lemma formatJSXTextReplacement_loop_eq:
  "formatJSXTextReplacement_loop cs nl sp =
     (nl + count_list cs 10,
      if 10 \<in> set cs then count_list (afterLastNewline cs) 32 else sp + count_list cs 32)"
proof (induction cs arbitrary: nl sp)
  case Nil
  show ?case by simp
next
  case (Cons c cs)
  show ?case
    by (simp add: Cons.IH afterLastNewline_Cons afterLastNewline_no_newline)
qed

lemma trailingSpaces_le: "trailingSpaces s \<le> count_list (afterLastNewline s) 32"
proof (induction s rule: rev_induct)
  case Nil
  show ?case by (simp add: trailingSpaces_def afterLastNewline_def)
next
  case (snoc c s)
  then show ?case
    by (auto simp: trailingSpaces_def afterLastNewline_def)
qed

lemma processChildTextElement_filler:
  "currentToken s = Some tok \<Longrightarrow>
   formatJSXTextLiteral (XHTMLEntities env) (rawCodeForToken s tok) = Inr literalCode \<Longrightarrow>
   processChildTextElement env s =
     replaceToken ((if literalCode = [34, 34] then [] else str '', '' @ literalCode)
                   @ formatJSXTextReplacement (rawCodeForToken s tok)) s"
  by (simp add: processChildTextElement_def rawCodeForToken_def)

text \<open>
  Claim C7, as amended. The filler that replaces a JSX text run consists of as many
  newlines as the run contains, followed by as many spaces as the run has after its last
  newline: every space of the last line is counted, not only the spaces that end the run,
  so the filler has at least the spaces that end the run. The text token is replaced by
  the string literal, if it is not the empty one, with the filler right after it.
\<close>

theorem formatJSXTextReplacement_counts:
  "formatJSXTextReplacement t =
     replicate (count_list t 10) 10 @ replicate (count_list (afterLastNewline t) 32) 32
   \<and> trailingSpaces t \<le> count_list (afterLastNewline t) 32
   \<and> (currentToken s = Some tok \<and>
      formatJSXTextLiteral (XHTMLEntities env) (rawCodeForToken s tok) = Inr literalCode \<longrightarrow>
      processChildTextElement env s =
        replaceToken ((if literalCode = [34, 34] then [] else str '', '' @ literalCode)
                      @ formatJSXTextReplacement (rawCodeForToken s tok)) s)"
  using trailingSpaces_le [of t] processChildTextElement_filler [of s tok env literalCode]
  by (simp add: formatJSXTextReplacement_def formatJSXTextReplacement_loop_eq
      afterLastNewline_no_newline)

lemma textChildExample_literal:
  "formatJSXTextLiteral (XHTMLEntities plainEnv) (str ''a b'' @ [10] @ str ''  '') =
     Inr ([34] @ str ''a b'' @ [34])"
  by (simp add: str_def formatJSXTextLiteral_def formatJSXTextLiteral_loop.simps
      formatJSXTextLiteral_body_def JSON_stringify_def quoteUnit_def isHighSurrogate_def
      isLowSurrogate_def)

theorem formatJSXTextReplacement_counts_witness:
  "formatJSXTextReplacement (str ''a b'' @ [10] @ str ''  '') = [10, 32, 32] \<and>
   processChildTextElement plainEnv textChildExample =
     ret (textChildExample
            \<lparr>resultCode := str ''f(a, {}, '' @ [34] @ str ''a b'' @ [34] @ [10, 32, 32],
             tokenIndex := 4\<rparr>)"
proof -
  have raw: "rawCodeForToken textChildExample (newToken tt_jsxText 3 9) =
      str ''a b'' @ [10] @ str ''  ''"
    by (simp add: rawCodeForToken_def slice_def str_def)
  have cur: "currentToken textChildExample = Some (newToken tt_jsxText 3 9)"
    by (simp add: currentToken_def)
  have lit: "formatJSXTextLiteral (XHTMLEntities plainEnv)
        (rawCodeForToken textChildExample (newToken tt_jsxText 3 9)) =
      Inr ([34] @ str ''a b'' @ [34])"
    by (simp only: raw textChildExample_literal)
  note c = conjI [OF cur lit]
  have f: "formatJSXTextReplacement (str ''a b'' @ [10] @ str ''  '') = [10, 32, 32]"
    by (simp add: formatJSXTextReplacement_def str_def)
  note formatJSXTextReplacement_counts [of "str ''a b'' @ [10] @ str ''  ''" textChildExample
      "newToken tt_jsxText 3 9" plainEnv "[34] @ str ''a b'' @ [34]",
      THEN conjunct2, THEN conjunct2, THEN mp, OF c]
  then have "processChildTextElement plainEnv textChildExample =
        replaceToken (str '', '' @ ([34] @ str ''a b'' @ [34]) @ [10, 32, 32]) textChildExample"
    by (simp only: raw f) (simp add: str_def)
  moreover have "replaceToken (str '', '' @ ([34] @ str ''a b'' @ [34]) @ [10, 32, 32])
        textChildExample =
     ret (textChildExample
            \<lparr>resultCode := str ''f(a, {}, '' @ [34] @ str ''a b'' @ [34] @ [10, 32, 32],
             tokenIndex := 4\<rparr>)"
    by (simp add: replaceToken_def previousWhitespace_def currentToken_def consumedEnd_def
        slice_def str_def)
  ultimately show ?thesis
    using f by simp
qed

text \<open>
  Claim C7 as stated fails: the run \<open>a b\<close> ends with no space, and its filler is one
  space.
\<close>

theorem formatJSXTextReplacement_trailing_counterexample:
  "formatJSXTextReplacement (str ''a b'') \<noteq>
   replicate (count_list (str ''a b'') 10) 10 @ replicate (trailingSpaces (str ''a b'')) 32"
  by (simp add: formatJSXTextReplacement_def str_def trailingSpaces_def)

section \<open>Binding atoms (claim C8)\<close>

lemma updateLastToken_nonempty:
  "state_tokens s \<noteq> [] \<Longrightarrow>
   updateLastToken f s =
     ret (s\<lparr>state_tokens := butlast (state_tokens s) @ [f (last (state_tokens s))]\<rparr>)"
  by (simp add: updateLastToken_def list_update_last)

text \<open>
  Claim C8. When the current token is a name or \<open>yield\<close>, \<open>parseBindingAtom\<close> parses the
  identifier and tags the last token produced with the role of a block-scoped declaration
  when \<open>isBlockScope\<close> holds and of a function-scoped declaration otherwise, every other
  token being left as it is. When the current token is none of \<open>this\<close>, \<open>yield\<close>, a name,
  an opening bracket or an opening brace, the call throws a syntax error and returns no
  state.
\<close>

theorem parseBindingAtom_roles:
  "((state_type s = tt_name \<or> state_type s = tt_yield) \<and>
      parseIdentifier penv (s\<lparr>state_type := tt_name\<rparr>) = ret s1 \<and> state_tokens s1 \<noteq> [] \<longrightarrow>
      parseBindingAtom (Suc fuel) penv isBlockScope s =
        ret (s1\<lparr>state_tokens := butlast (state_tokens s1) @
               [(last (state_tokens s1))\<lparr>identifierRole :=
                  Some (if isBlockScope then BlockScopedDeclaration
                        else FunctionScopedDeclaration)\<rparr>]\<rparr>))
   \<and> (state_type s \<noteq> tt_this \<and> state_type s \<noteq> tt_yield \<and> state_type s \<noteq> tt_name \<and>
      state_type s \<noteq> tt_bracketL \<and> state_type s \<noteq> tt_braceL \<longrightarrow>
      parseBindingAtom (Suc fuel) penv isBlockScope s = raise SyntaxError)"
  by (auto simp: parseBindingIdentifier_def updateLastToken_nonempty unexpected_def)

lemma examplePenv_fields [simp]:
  "parseIdentifier examplePenv = (\<lambda>s. ret (exampleNext s))"
  by (simp add: examplePenv_def)

theorem parseBindingAtom_roles_witness:
  "parseBindingAtom (Suc 0) examplePenv True
      \<lparr>state_type = tt_yield, state_tokens = [newToken tt_name 0 0], state_rest = ()\<rparr> =
     ret \<lparr>state_type = tt_eof,
          state_tokens = [newToken tt_name 0 0,
             (newToken tt_name 0 0)\<lparr>identifierRole := Some BlockScopedDeclaration\<rparr>],
          state_rest = ()\<rparr> \<and>
   parseBindingAtom (Suc 0) examplePenv False
      \<lparr>state_type = tt_name, state_tokens = [], state_rest = ()\<rparr> =
     ret \<lparr>state_type = tt_eof,
          state_tokens = [(newToken tt_name 0 0)\<lparr>identifierRole := Some FunctionScopedDeclaration\<rparr>],
          state_rest = ()\<rparr> \<and>
   parseBindingAtom (Suc 0) examplePenv True
      \<lparr>state_type = tt_num, state_tokens = [], state_rest = ()\<rparr> = raise SyntaxError"
  using parseBindingAtom_roles [of "\<lparr>state_type = tt_yield, state_tokens = [newToken tt_name 0 0], state_rest = ()\<rparr>"
      examplePenv
      "exampleNext \<lparr>state_type = tt_name, state_tokens = [newToken tt_name 0 0], state_rest = ()\<rparr>"
      0 True]
    parseBindingAtom_roles [of "\<lparr>state_type = tt_name, state_tokens = [], state_rest = ()\<rparr>"
      examplePenv
      "exampleNext \<lparr>state_type = tt_name, state_tokens = [], state_rest = ()\<rparr>"
      0 False]
    parseBindingAtom_roles [of "\<lparr>state_type = tt_num, state_tokens = [], state_rest = ()\<rparr>"
      examplePenv _ 0 True]
  by (simp add: exampleNext_def)

section \<open>Configuration (claim C9)\<close>

text \<open>
  Claim C9. A configuration with \<open>typescript\<close> and without \<open>imports\<close> makes the
  constructor throw, so a run throws whatever the tokens and the fuel, and gives no output;
  every other list of the five transforms is accepted.
\<close>

theorem RootTransformer_constructor_validates:
  "(T_typescript \<in> set transforms \<and> T_imports \<notin> set transforms \<longrightarrow>
      RootTransformer_constructor transforms = Inl configError \<and>
      run fuel env transforms s = raise configError)
   \<and> (\<not> (T_typescript \<in> set transforms \<and> T_imports \<notin> set transforms) \<longrightarrow>
      (\<exists>transformers. RootTransformer_constructor transforms = Inr transformers))"
  by (auto simp: RootTransformer_constructor_def run_def Let_def configError_def)

theorem RootTransformer_constructor_validates_witness:
  "RootTransformer_constructor [T_typescript] = Inl configError \<and>
   run 0 plainEnv [T_typescript] (initialState [] [] ()) = raise configError \<and>
   RootTransformer_constructor [T_typescript, T_imports] =
     Inr [NumericSeparatorTransformer, OptionalCatchBindingTransformer,
          ImportTransformer False, TypeScriptTransformer]"
  using RootTransformer_constructor_validates
          [of "[T_typescript]" 0 plainEnv "initialState [] [] ()"]
    RootTransformer_constructor_validates [of "[T_typescript, T_imports]"]
  by (simp add: RootTransformer_constructor_def)

section \<open>Empty interpolations (claim C10)\<close>

text \<open>
  Claim C10. At a child that is an opening brace directly followed by its closing brace,
  \<open>processChildren\<close> replaces both tokens by the empty text and goes on with the next
  child: what it emits is the source text before and between the two braces, and no
  argument separator, so the call gets no argument for this child.
\<close>

theorem processChildren_empty_interpolation:
  "matches2 s tt_braceL tt_braceR \<Longrightarrow>
   processChildren (Suc fuel) env root tag s =
     processChildren fuel env root tag
       (s\<lparr>resultCode := resultCode s
              @ slice (code s) (consumedEnd s) (start (tokens s ! tokenIndex s))
              @ slice (code s) (end' (tokens s ! tokenIndex s))
                  (start (tokens s ! (tokenIndex s + 1))),
           tokenIndex := tokenIndex s + 2\<rparr>)"
proof -
  assume m: "matches2 s tt_braceL tt_braceR"
  then have r: "tokenIndex s + 1 < length (tokens s)"
    and t1: "type (tokens s ! tokenIndex s) = tt_braceL"
    by (simp_all add: matches2_iff)
  from m t1 r have c: "\<not> matches2 s tt_jsxTagStart tt_slash" "matches1 s tt_braceL"
    by (simp_all add: matches2_iff matches1_iff)
  show ?thesis
    using m c r
    by (simp add: replaceToken_def previousWhitespace_def currentToken_def consumedEnd_advance)
qed

theorem processChildren_empty_interpolation_witness:
  "matches2 emptyInterpolationExample tt_braceL tt_braceR \<and>
   processChildren 2 plainEnv copyingRoot (\<lambda>s. None) emptyInterpolationExample =
     ret (emptyInterpolationExample\<lparr>resultCode := str ''f(a, {} '', tokenIndex := 5\<rparr>)"
proof -
  have m: "matches2 emptyInterpolationExample tt_braceL tt_braceR"
    by (simp add: matches2_iff)
  have "processChildren (Suc 0) plainEnv copyingRoot (\<lambda>s. None)
          (emptyInterpolationExample\<lparr>resultCode := str ''f(a, {} '', tokenIndex := 5\<rparr>) =
        ret (emptyInterpolationExample\<lparr>resultCode := str ''f(a, {} '', tokenIndex := 5\<rparr>)"
    by (simp add: matches2_iff)
  with processChildren_empty_interpolation [OF m, of "Suc 0" plainEnv copyingRoot "\<lambda>s. None"] m
  show ?thesis
    by (simp add: consumedEnd_def slice_def str_def numeral_2_eq_2)
qed

end
